theory Spec2Isabelle
  imports Main "HOL-Library.Sublist"
begin

section \<open>Python values, dictionaries and exceptions\<close>

text \<open>
  The values that cross the tool boundary are JSON-like Python values (\<open>Any\<close> in the
  type hints), extended with the store's native identifier. A float is kept as an opaque
  mantissa/exponent pair; no function of the model computes with it.
\<close>

datatype pyval =
    PNone
  | PBool bool
  | PInt int
  | PFloat int int
  | PStr string
  | PList "pyval list"
  | PDict "(string \<times> pyval) list"
  | PObjectId string

text \<open>
  A Python \<open>dict\<close> keeps insertion order, so it is an association list. Looking a key
  up is \<open>map_of\<close>; \<open>d[k] = v\<close> overwrites in place when the key exists and appends
  otherwise; \<open>{**a, **b}\<close> inserts the items of \<open>b\<close> into a copy of \<open>a\<close>.
\<close>

type_synonym dict = "(string \<times> pyval) list"

fun dict_set :: "('k \<times> 'v) list \<Rightarrow> 'k \<Rightarrow> 'v \<Rightarrow> ('k \<times> 'v) list" where
  "dict_set [] k v = [(k, v)]"
| "dict_set ((k', v') # d) k v =
     (if k' = k then (k, v) # d else (k', v') # dict_set d k v)"

definition dict_get :: "('k \<times> 'v) list \<Rightarrow> 'k \<Rightarrow> 'v \<Rightarrow> 'v" where
  "dict_get d k dflt = (case map_of d k of Some v \<Rightarrow> v | None \<Rightarrow> dflt)"

definition dict_keys :: "('k \<times> 'v) list \<Rightarrow> 'k list" where
  "dict_keys d = map fst d"

definition dict_merge :: "('k \<times> 'v) list \<Rightarrow> ('k \<times> 'v) list \<Rightarrow> ('k \<times> 'v) list" where
  "dict_merge a b = foldl (\<lambda>d (k, v). dict_set d k v) a b"

text \<open>A string between single quotes, as \<open>f"'{s}'"\<close> formats it.\<close>

definition quoted :: "string \<Rightarrow> string" where
  "quoted s = [CHR 0x27] @ s @ [CHR 0x27]"

text \<open>Python truthiness, as \<open>if x:\<close> and \<open>x or y\<close> test it.\<close>

fun truthy :: "pyval \<Rightarrow> bool" where
  "truthy PNone = False"
| "truthy (PBool b) = b"
| "truthy (PInt n) = (n \<noteq> 0)"
| "truthy (PFloat m e) = (m \<noteq> 0)"
| "truthy (PStr s) = (s \<noteq> [])"
| "truthy (PList xs) = (xs \<noteq> [])"
| "truthy (PDict d) = (d \<noteq> [])"
| "truthy (PObjectId h) = True"

text \<open>
  Exceptions are values. Only subclasses of \<open>Exception\<close> are modelled (what
  \<open>except Exception\<close> catches); \<open>PyMongoError\<close> stands for the class and its
  subclasses, as \<open>except PyMongoError\<close> does. A \<open>ValidationError\<close> carries the
  failing fields with the constraint each one broke.
\<close>

datatype constraint = NotInt | NotDict | NotStrList | NotStr | NotGe int | NotLe int

datatype exn =
    ValidationError "(string \<times> constraint) list"
  | PyMongoError string
  | HTTPException nat string
  | RequestException string
  | ValueError string
  | TypeError string
  | AttributeError string
  | OtherException string

section \<open>The libraries and the store the server runs against\<close>

text \<open>
  What the code takes from outside the repository is a parameter of the model:
  \<^item> \<open>str_val\<close>, \<open>str_exn\<close>: Python's \<open>str()\<close> on a value and on an exception (the text of
    an exception is its library's);
  \<^item> \<open>unicode_lower\<close>, \<open>unicode_upper\<close>, \<open>unicode_strip\<close>: Python's \<open>str.lower()\<close>,
    \<open>str.upper()\<close> and \<open>str.strip()\<close> on a string that is not pure ASCII (their result
    follows the Unicode tables of the interpreter);
  \<^item> \<open>lax_int\<close>, \<open>lax_dict\<close>, \<open>lax_str_list\<close>: what pydantic makes of an input that is not
    already of the declared type (\<open>None\<close>: a type error; which inputs it converts
    depends on the pydantic version). An input of the declared type is taken as it is;
  \<^item> \<open>implicit_optional\<close>: whether pydantic reads a field declared \<open>error: str = None\<close>
    as an optional string and accepts an explicit \<open>None\<close> for it (pydantic 1 does,
    pydantic 2 raises a \<open>ValidationError\<close>); the repository pins no version;
  \<^item> \<open>coll_find q s l\<close>: the records \<open>collection.find(q).skip(s).limit(l)\<close> yields when
    iterated, or the exception it raises; \<open>coll_count q\<close>: \<open>collection.count_documents(q)\<close>.
\<close>

record python =
  str_val :: "pyval \<Rightarrow> string"
  str_exn :: "exn \<Rightarrow> string"
  unicode_lower :: "string \<Rightarrow> string"
  unicode_upper :: "string \<Rightarrow> string"
  unicode_strip :: "string \<Rightarrow> string"

record env = python +
  lax_int :: "pyval \<Rightarrow> int option"
  lax_dict :: "pyval \<Rightarrow> dict option"
  lax_str_list :: "pyval \<Rightarrow> string list option option"
  implicit_optional :: bool
  coll_find :: "dict \<Rightarrow> int \<Rightarrow> int \<Rightarrow> exn + dict list"
  coll_count :: "dict \<Rightarrow> exn + int"

text \<open>
  Strings are sequences of bytes (UTF-8). On a pure ASCII string \<open>lower\<close> and \<open>upper\<close>
  map the 26 letters and \<open>strip\<close> removes, from both ends, the ASCII characters for
  which \<open>str.isspace\<close> holds; on any other string they are the interpreter's.
\<close>

definition is_ascii :: "string \<Rightarrow> bool" where
  "is_ascii s = list_all (\<lambda>c. \<not> digit7 c) s"

definition ascii_lower :: "string \<Rightarrow> string" where
  "ascii_lower s =
     map (\<lambda>c. case map_of (zip ''ABCDEFGHIJKLMNOPQRSTUVWXYZ'' ''abcdefghijklmnopqrstuvwxyz'') c of
                 Some l \<Rightarrow> l | None \<Rightarrow> c) s"

definition ascii_upper :: "string \<Rightarrow> string" where
  "ascii_upper s =
     map (\<lambda>c. case map_of (zip ''abcdefghijklmnopqrstuvwxyz'' ''ABCDEFGHIJKLMNOPQRSTUVWXYZ'') c of
                 Some u \<Rightarrow> u | None \<Rightarrow> c) s"

definition ascii_isspace :: "char \<Rightarrow> bool" where
  "ascii_isspace c =
     (c \<in> set [CHR 0x09, CHR 0x0A, CHR 0x0B, CHR 0x0C, CHR 0x0D,
               CHR 0x1C, CHR 0x1D, CHR 0x1E, CHR 0x1F, CHR '' ''])"

definition ascii_strip :: "string \<Rightarrow> string" where
  "ascii_strip s = rev (dropWhile ascii_isspace (rev (dropWhile ascii_isspace s)))"

definition py_lower :: "'a python_scheme \<Rightarrow> string \<Rightarrow> string" where
  "py_lower py s = (if is_ascii s then ascii_lower s else unicode_lower py s)"

definition py_upper :: "'a python_scheme \<Rightarrow> string \<Rightarrow> string" where
  "py_upper py s = (if is_ascii s then ascii_upper s else unicode_upper py s)"

definition py_strip :: "'a python_scheme \<Rightarrow> string \<Rightarrow> string" where
  "py_strip py s = (if is_ascii s then ascii_strip s else unicode_strip py s)"

text \<open>The calls made to the collection, in order: the observable effect on the store.\<close>

datatype store_call = FindCall dict int int | CountCall dict

section \<open>database/mongodb_client.py\<close>

text \<open>
  \<open>search_documents\<close> converts each record's \<open>_id\<close> to a string and re-raises whatever
  the collection raises. \<open>count_documents\<close> returns 0 when the collection raises a
  \<open>PyMongoError\<close>; any other exception propagates.
\<close>

definition stringify_id :: "env \<Rightarrow> dict \<Rightarrow> dict" where
  "stringify_id e doc =
     (case map_of doc ''_id'' of
        Some v \<Rightarrow> dict_set doc ''_id'' (PStr (str_val e v))
      | None \<Rightarrow> doc)"

definition MongoDBClient_search_documents ::
  "env \<Rightarrow> dict \<Rightarrow> int \<Rightarrow> int \<Rightarrow> store_call list \<Rightarrow> (exn + dict list) \<times> store_call list" where
  "MongoDBClient_search_documents e q l s calls =
     (case coll_find e q s l of
        Inl ex \<Rightarrow> (Inl ex, calls @ [FindCall q s l])
      | Inr cursor \<Rightarrow> (Inr (map (stringify_id e) cursor), calls @ [FindCall q s l]))"

definition MongoDBClient_count_documents ::
  "env \<Rightarrow> dict \<Rightarrow> store_call list \<Rightarrow> (exn + int) \<times> store_call list" where
  "MongoDBClient_count_documents e q calls =
     (case coll_count e q of
        Inr count \<Rightarrow> (Inr count, calls @ [CountCall q])
      | Inl (PyMongoError m) \<Rightarrow> (Inr 0, calls @ [CountCall q])
      | Inl ex \<Rightarrow> (Inl ex, calls @ [CountCall q]))"

section \<open>mcp_server/tools\<close>

record ToolOutput =
  success :: bool
  data :: pyval
  error :: "string option"
  metadata :: dict

record MongoDBSearchInput =
  query :: dict
  limit :: int
  skip :: int
  fields' :: "string list option"

text \<open>
  \<open>MongoDBSearchInput(**inputs)\<close>: every field has a default, used when the key is absent;
  a given value is converted to the declared type and then checked against the bounds of
  its \<open>Field\<close> (\<open>ge\<close>, \<open>le\<close>). The errors of all fields are collected, in field order, into one
  \<open>ValidationError\<close>. Keys that are no field are ignored.
\<close>

definition as_int :: "env \<Rightarrow> pyval \<Rightarrow> int option" where
  "as_int e v = (case v of PInt n \<Rightarrow> Some n | _ \<Rightarrow> lax_int e v)"

definition as_dict :: "env \<Rightarrow> pyval \<Rightarrow> dict option" where
  "as_dict e v = (case v of PDict d \<Rightarrow> Some d | _ \<Rightarrow> lax_dict e v)"

fun str_items :: "pyval list \<Rightarrow> string list option" where
  "str_items [] = Some []"
| "str_items (PStr s # vs) = map_option ((#) s) (str_items vs)"
| "str_items (_ # vs) = None"

definition as_str_list :: "env \<Rightarrow> pyval \<Rightarrow> string list option option" where
  "as_str_list e v =
     (case v of
        PList vs \<Rightarrow> (case str_items vs of Some ss \<Rightarrow> Some (Some ss) | None \<Rightarrow> lax_str_list e v)
      | _ \<Rightarrow> lax_str_list e v)"

definition validate_query :: "env \<Rightarrow> dict \<Rightarrow> (string \<times> constraint) list + dict" where
  "validate_query e inputs =
     (case map_of inputs ''query'' of
        None \<Rightarrow> Inr []
      | Some v \<Rightarrow> (case as_dict e v of None \<Rightarrow> Inl [(''query'', NotDict)] | Some d \<Rightarrow> Inr d))"

definition validate_limit :: "env \<Rightarrow> dict \<Rightarrow> (string \<times> constraint) list + int" where
  "validate_limit e inputs =
     (case map_of inputs ''limit'' of
        None \<Rightarrow> Inr 10
      | Some v \<Rightarrow>
          (case as_int e v of
             None \<Rightarrow> Inl [(''limit'', NotInt)]
           | Some n \<Rightarrow>
               if n < 1 then Inl [(''limit'', NotGe 1)]
               else if n > 100 then Inl [(''limit'', NotLe 100)]
               else Inr n))"

definition validate_skip :: "env \<Rightarrow> dict \<Rightarrow> (string \<times> constraint) list + int" where
  "validate_skip e inputs =
     (case map_of inputs ''skip'' of
        None \<Rightarrow> Inr 0
      | Some v \<Rightarrow>
          (case as_int e v of
             None \<Rightarrow> Inl [(''skip'', NotInt)]
           | Some n \<Rightarrow> if n < 0 then Inl [(''skip'', NotGe 0)] else Inr n))"

definition validate_fields :: "env \<Rightarrow> dict \<Rightarrow> (string \<times> constraint) list + string list option" where
  "validate_fields e inputs =
     (case map_of inputs ''fields'' of
        None \<Rightarrow> Inr None
      | Some v \<Rightarrow> (case as_str_list e v of None \<Rightarrow> Inl [(''fields'', NotStrList)] | Some fs \<Rightarrow> Inr fs))"

definition errors_of :: "'e list + 'a \<Rightarrow> 'e list" where
  "errors_of r = (case r of Inl es \<Rightarrow> es | Inr _ \<Rightarrow> [])"

definition MongoDBSearchInput_validate :: "env \<Rightarrow> dict \<Rightarrow> exn + MongoDBSearchInput" where
  "MongoDBSearchInput_validate e inputs =
     (case (validate_query e inputs, validate_limit e inputs,
            validate_skip e inputs, validate_fields e inputs) of
        (Inr q, Inr l, Inr s, Inr fs) \<Rightarrow> Inr \<lparr>query = q, limit = l, skip = s, fields' = fs\<rparr>
      | (rq, rl, rs, rf) \<Rightarrow>
          Inl (ValidationError (errors_of rq @ errors_of rl @ errors_of rs @ errors_of rf)))"

text \<open>
  Lines 85-97 of \<open>execute\<close>: the inner loop over the requested fields, then the \<open>_id\<close>,
  for one record; and the guard \<open>if search_input.fields:\<close>, which is false for \<open>None\<close>
  and for the empty list.
\<close>

definition filter_doc :: "string list \<Rightarrow> dict \<Rightarrow> dict" where
  "filter_doc fs doc =
     (let filtered_doc =
            foldl (\<lambda>acc field. case map_of doc field of
                                   Some v \<Rightarrow> dict_set acc field v
                                 | None \<Rightarrow> acc) [] fs
      in case map_of doc ''_id'' of
           Some v \<Rightarrow> dict_set filtered_doc ''_id'' v
         | None \<Rightarrow> filtered_doc)"

definition filter_fields :: "string list option \<Rightarrow> dict list \<Rightarrow> dict list" where
  "filter_fields fs documents =
     (case fs of
        None \<Rightarrow> documents
      | Some names \<Rightarrow> if names \<noteq> [] then map (filter_doc names) documents else documents)"

definition search_metadata :: "MongoDBSearchInput \<Rightarrow> int \<Rightarrow> dict list \<Rightarrow> dict" where
  "search_metadata si total_count documents =
     [(''total_count'', PInt total_count),
      (''returned_count'', PInt (int (length documents))),
      (''query'', PDict (query si)),
      (''limit'', PInt (limit si)),
      (''skip'', PInt (skip si)),
      (''has_more'', PBool (total_count > skip si + int (length documents)))]"

text \<open>
  The \<open>try\<close> block of \<open>MongoDBSearchTool.execute\<close>: \<open>Inl\<close> is an exception leaving the
  block, with the calls made to the store so far.
\<close>

definition execute_try ::
  "env \<Rightarrow> dict \<Rightarrow> store_call list \<Rightarrow> (exn + ToolOutput) \<times> store_call list" where
  "execute_try e inputs calls =
     (case MongoDBSearchInput_validate e inputs of
        Inl ex \<Rightarrow> (Inl ex, calls)
      | Inr search_input \<Rightarrow>
          (case MongoDBClient_search_documents e (query search_input) (limit search_input)
                  (skip search_input) calls of
             (Inl ex, calls1) \<Rightarrow> (Inl ex, calls1)
           | (Inr found, calls1) \<Rightarrow>
               (let documents = filter_fields (fields' search_input) found in
                case MongoDBClient_count_documents e (query search_input) calls1 of
                  (Inl ex, calls2) \<Rightarrow> (Inl ex, calls2)
                | (Inr total_count, calls2) \<Rightarrow>
                    (Inr \<lparr>success = True,
                          data = PList (map PDict documents),
                          error = None,
                          metadata = search_metadata search_input total_count documents\<rparr>,
                     calls2))))"

text \<open>
  \<open>execute\<close> itself: the \<open>except Exception\<close> handler turns whatever left the block into a
  failure result echoing \<open>inputs.get("query", {})\<close>. The result type keeps \<open>Inl\<close> for an
  exception that would leave \<open>execute\<close>.
\<close>

definition search_failed :: "env \<Rightarrow> dict \<Rightarrow> exn \<Rightarrow> ToolOutput" where
  "search_failed e inputs ex =
     \<lparr>success = False,
      data = PNone,
      error = Some (''MongoDB search failed: '' @ str_exn e ex),
      metadata = [(''query'', dict_get inputs ''query'' (PDict []))]\<rparr>"

definition MongoDBSearchTool_execute ::
  "env \<Rightarrow> dict \<Rightarrow> store_call list \<Rightarrow> (exn + ToolOutput) \<times> store_call list" where
  "MongoDBSearchTool_execute e inputs calls =
     (case execute_try e inputs calls of
        (Inl ex, calls') \<Rightarrow> (Inr (search_failed e inputs ex), calls')
      | (Inr output, calls') \<Rightarrow> (Inr output, calls'))"

text \<open>
  \<open>BaseTool\<close>: a tool has a name, a description and an \<open>execute\<close> method, which may
  raise when a subclass breaks the contract.
\<close>

record BaseTool =
  name :: string
  description :: string
  execute :: "dict \<Rightarrow> store_call list \<Rightarrow> (exn + ToolOutput) \<times> store_call list"

definition MongoDBSearchTool :: "env \<Rightarrow> BaseTool" where
  "MongoDBSearchTool e =
     \<lparr>name = ''mongodb_search'',
      description = ''Search documents in MongoDB collection using query parameters'',
      execute = MongoDBSearchTool_execute e\<rparr>"

section \<open>mcp_server/handlers/tool_handler.py\<close>

type_synonym tools = "(string \<times> BaseTool) list"

definition register_tool :: "tools \<Rightarrow> BaseTool \<Rightarrow> tools" where
  "register_tool ts tool = dict_set ts (name tool) tool"

definition ToolHandler_init :: "env \<Rightarrow> tools" where
  "ToolHandler_init e = register_tool [] (MongoDBSearchTool e)"

definition get_tool :: "tools \<Rightarrow> string \<Rightarrow> BaseTool option" where
  "get_tool ts tool_name = map_of ts tool_name"

definition tool_not_found :: "tools \<Rightarrow> string \<Rightarrow> ToolOutput" where
  "tool_not_found ts tool_name =
     \<lparr>success = False,
      data = PNone,
      error = Some (''Tool '' @ quoted tool_name @ '' not found''),
      metadata = [(''available_tools'', PList (map PStr (dict_keys ts)))]\<rparr>"

definition execute_tool_try ::
  "tools \<Rightarrow> string \<Rightarrow> dict \<Rightarrow> store_call list \<Rightarrow> (exn + ToolOutput) \<times> store_call list" where
  "execute_tool_try ts tool_name inputs calls =
     (case get_tool ts tool_name of
        None \<Rightarrow> (Inr (tool_not_found ts tool_name), calls)
      | Some tool \<Rightarrow> execute tool inputs calls)"

definition ToolHandler_execute_tool ::
  "env \<Rightarrow> tools \<Rightarrow> string \<Rightarrow> dict \<Rightarrow> store_call list \<Rightarrow> (exn + ToolOutput) \<times> store_call list" where
  "ToolHandler_execute_tool e ts tool_name inputs calls =
     (case execute_tool_try ts tool_name inputs calls of
        (Inl ex, calls') \<Rightarrow>
          (Inr \<lparr>success = False,
                data = PNone,
                error = Some (''Tool execution error: '' @ str_exn e ex),
                metadata = [(''tool_name'', PStr tool_name)]\<rparr>,
           calls')
      | (Inr result, calls') \<Rightarrow> (Inr result, calls'))"

section \<open>mcp_server/server.py\<close>

text \<open>
  The request and response models. The request's \<open>metadata\<close> field is \<open>req_metadata\<close>
  here, the name \<open>metadata\<close> being the result's.
\<close>

record MCPRequest =
  tool_name :: string
  inputs :: dict
  req_metadata :: dict

record MCPResponse = ToolOutput +
  mcp_version :: string

definition MCP_VERSION :: string where
  "MCP_VERSION = ''1.0.0''"

text \<open>
  \<open>MCPResponse(success=..., data=..., error=..., metadata=...)\<close>: the field is declared
  \<open>error: str = None\<close> and the route passes \<open>error=result.error\<close> explicitly, which is
  \<open>None\<close> for every result without an error. Whether that validates is the library's
  choice (\<open>implicit_optional\<close>). The other arguments are of their declared types.
  (\<open>ToolOutput\<close> is only ever built with an error string or with no \<open>error\<close> argument,
  and a default is not validated, so building it cannot fail.)
\<close>

definition MCPResponse_init ::
  "env \<Rightarrow> bool \<Rightarrow> pyval \<Rightarrow> string option \<Rightarrow> dict \<Rightarrow> exn + MCPResponse" where
  "MCPResponse_init e ok d err md =
     (if err = None \<and> \<not> implicit_optional e then Inl (ValidationError [(''error'', NotStr)])
      else Inr \<lparr>success = ok, data = d, error = err, metadata = md, mcp_version = MCP_VERSION\<rparr>)"

definition server_execute_tool_try ::
  "env \<Rightarrow> tools \<Rightarrow> MCPRequest \<Rightarrow> store_call list \<Rightarrow> (exn + MCPResponse) \<times> store_call list" where
  "server_execute_tool_try e ts request calls =
     (case ToolHandler_execute_tool e ts (tool_name request) (inputs request) calls of
        (Inl ex, calls') \<Rightarrow> (Inl ex, calls')
      | (Inr result, calls') \<Rightarrow>
          (let merged_metadata = dict_merge (req_metadata request) (metadata result) in
           (MCPResponse_init e (success result) (data result) (error result) merged_metadata,
            calls')))"

definition server_execute_tool ::
  "env \<Rightarrow> tools \<Rightarrow> MCPRequest \<Rightarrow> store_call list \<Rightarrow> (exn + MCPResponse) \<times> store_call list" where
  "server_execute_tool e ts request calls =
     (case server_execute_tool_try e ts request calls of
        (Inl ex, calls') \<Rightarrow>
          (MCPResponse_init e False PNone (Some (''Tool execution failed: '' @ str_exn e ex))
             [(''tool_name'', PStr (tool_name request))],
           calls')
      | (Inr response, calls') \<Rightarrow> (Inr response, calls'))"

text \<open>
  \<open>GET /tools/{tool_name}\<close>, the route of the same file that does answer with an error
  status: \<open>HTTPException\<close> is re-raised, anything else becomes a 500. The tool information
  it returns is reduced to the tool's name and description.
\<close>

definition server_get_tool_info :: "tools \<Rightarrow> string \<Rightarrow> exn + dict" where
  "server_get_tool_info ts n =
     (case get_tool ts n of
        None \<Rightarrow> Inl (HTTPException 404 (''Tool '' @ quoted n @ '' not found''))
      | Some tool \<Rightarrow> Inr [(''name'', PStr (name tool)), (''description'', PStr (description tool))])"

text \<open>
  The framework's part of a route. A raised \<open>HTTPException\<close> is answered with its own
  status code, any other exception with 500. When the handler returns, the framework
  serialises the returned body to JSON after the handler's \<open>try\<close> has been left: a body
  it can serialise is answered with status 200, one it cannot (a value of the store's
  identifier type anywhere in it) with 500. The second component is the body sent with
  a 200.
\<close>

fun json_serialisable :: "pyval \<Rightarrow> bool" where
  "json_serialisable (PObjectId h) = False"
| "json_serialisable (PList xs) = list_all json_serialisable xs"
| "json_serialisable (PDict d) = list_all (\<lambda>kv. json_serialisable (snd kv)) d"
| "json_serialisable v = True"

definition response_serialisable :: "MCPResponse \<Rightarrow> bool" where
  "response_serialisable r = (json_serialisable (data r) \<and> json_serialisable (PDict (metadata r)))"

definition route_response :: "('a \<Rightarrow> bool) \<Rightarrow> exn + 'a \<Rightarrow> nat \<times> 'a option" where
  "route_response serialisable r =
     (case r of
        Inr body \<Rightarrow> if serialisable body then (200, Some body) else (500, None)
      | Inl (HTTPException code detail) \<Rightarrow> (code, None)
      | Inl ex \<Rightarrow> (500, None))"

definition post_execute ::
  "env \<Rightarrow> tools \<Rightarrow> MCPRequest \<Rightarrow> store_call list \<Rightarrow> nat \<times> MCPResponse option" where
  "post_execute e ts request calls =
     route_response response_serialisable (fst (server_execute_tool e ts request calls))"

definition get_tools_name :: "tools \<Rightarrow> string \<Rightarrow> nat \<times> dict option" where
  "get_tools_name ts n =
     route_response (\<lambda>body. json_serialisable (PDict body)) (server_get_tool_info ts n)"

section \<open>mcp_client/client.py\<close>

text \<open>
  The HTTP session is a parameter: \<open>session_get url\<close> and \<open>session_post url payload\<close>
  are the decoded JSON body of the response, or the exception that the request,
  \<open>raise_for_status\<close> or the decoding raises. The requests sent are recorded in order.
\<close>

record client_env = python +
  session_get :: "string \<Rightarrow> exn + pyval"
  session_post :: "string \<Rightarrow> pyval \<Rightarrow> exn + pyval"

datatype http_call = HttpGet string | HttpPost string pyval

definition make_request ::
  "client_env \<Rightarrow> string \<Rightarrow> string \<Rightarrow> string \<Rightarrow> pyval \<Rightarrow> http_call list
     \<Rightarrow> (exn + pyval) \<times> http_call list" where
  "make_request ce server_url method endpoint payload sent =
     (let url = server_url @ endpoint in
      if py_upper ce method = ''GET'' then (session_get ce url, sent @ [HttpGet url])
      else if py_upper ce method = ''POST'' then (session_post ce url payload, sent @ [HttpPost url payload])
      else (Inl (ValueError (''Unsupported HTTP method: '' @ method)), sent))"

text \<open>
  \<open>len(x)\<close>, as far as the client needs it: the length only goes to the log, what
  matters is that \<open>len\<close> raises \<open>TypeError\<close> on a value that has none.
\<close>

definition py_len :: "pyval \<Rightarrow> exn + unit" where
  "py_len v =
     (case v of
        PStr s \<Rightarrow> Inr ()
      | PList xs \<Rightarrow> Inr ()
      | PDict d \<Rightarrow> Inr ()
      | _ \<Rightarrow> Inl (TypeError ''len''))"

definition search_request_data :: "dict option \<Rightarrow> int \<Rightarrow> int \<Rightarrow> string list option \<Rightarrow> pyval" where
  "search_request_data q l s fs =
     PDict [(''tool_name'', PStr ''mongodb_search''),
            (''inputs'',
               PDict ([(''query'', PDict (case q of Some d \<Rightarrow> d | None \<Rightarrow> [])),
                       (''limit'', PInt l),
                       (''skip'', PInt s)]
                      @ (case fs of
                           Some names \<Rightarrow> if names \<noteq> [] then [(''fields'', PList (map PStr names))] else []
                         | None \<Rightarrow> []))),
            (''metadata'', PDict [(''client_request'', PBool True), (''timestamp'', PNone)])]"

text \<open>
  The \<open>try\<close> block of \<open>search_documents\<close>. The arguments of its log call are evaluated
  before it returns: on a truthy \<open>success\<close>, \<open>len(result.get("data", []))\<close> and
  \<open>result.get("metadata", {}).get(...)\<close> raise on a value without length, or a
  \<open>metadata\<close> that is no dict.
\<close>

definition search_documents_try ::
  "client_env \<Rightarrow> string \<Rightarrow> dict option \<Rightarrow> int \<Rightarrow> int \<Rightarrow> string list option \<Rightarrow> http_call list
     \<Rightarrow> (exn + dict) \<times> http_call list" where
  "search_documents_try ce server_url q l s fs sent =
     (case make_request ce server_url ''POST'' ''/execute'' (search_request_data q l s fs) sent of
        (Inl ex, sent') \<Rightarrow> (Inl ex, sent')
      | (Inr (PDict result), sent') \<Rightarrow>
          (if truthy (dict_get result ''success'' PNone) then
             (case py_len (dict_get result ''data'' (PList [])) of
                Inl ex \<Rightarrow> (Inl ex, sent')
              | Inr returned_count \<Rightarrow>
                  (case dict_get result ''metadata'' (PDict []) of
                     PDict m \<Rightarrow> (Inr result, sent')
                   | _ \<Rightarrow> (Inl (AttributeError ''get''), sent')))
           else (Inr result, sent'))
      | (Inr other, sent') \<Rightarrow> (Inl (AttributeError ''get''), sent'))"

definition MCPClient_search_documents ::
  "client_env \<Rightarrow> string \<Rightarrow> dict option \<Rightarrow> int \<Rightarrow> int \<Rightarrow> string list option \<Rightarrow> http_call list
     \<Rightarrow> dict \<times> http_call list" where
  "MCPClient_search_documents ce server_url q l s fs sent =
     (case search_documents_try ce server_url q l s fs sent of
        (Inl ex, sent') \<Rightarrow>
          ([(''success'', PBool False),
            (''error'', PStr (str_exn ce ex)),
            (''data'', PList []),
            (''metadata'', PDict [])],
           sent')
      | (Inr result, sent') \<Rightarrow> (result, sent'))"

definition text_search_query :: "string \<Rightarrow> dict" where
  "text_search_query search_terms =
     [(''$or'',
       PList [PDict [(''content'', PDict [(''$regex'', PStr search_terms), (''$options'', PStr ''i'')])],
              PDict [(''title'', PDict [(''$regex'', PStr search_terms), (''$options'', PStr ''i'')])],
              PDict [(''description'', PDict [(''$regex'', PStr search_terms), (''$options'', PStr ''i'')])]])]"

text \<open>
  Lines 247-250 of \<open>process_prompt\<close>: \<open>if result.get("metadata"):\<close> is false for a
  missing, \<open>None\<close> or empty \<open>metadata\<close>; the item assignments raise \<open>TypeError\<close> on a
  truthy \<open>metadata\<close> that is no dict.
\<close>

definition add_prompt_metadata :: "string \<Rightarrow> dict \<Rightarrow> exn + dict" where
  "add_prompt_metadata prompt result =
     (case map_of result ''metadata'' of
        None \<Rightarrow> Inr result
      | Some v \<Rightarrow>
          if truthy v then
            (case v of
               PDict m \<Rightarrow>
                 Inr (dict_set result ''metadata''
                        (PDict (dict_set (dict_set m ''original_prompt'' (PStr prompt))
                                  ''query_type'' (PStr ''text_search''))))
             | _ \<Rightarrow> Inl (TypeError ''item assignment''))
          else Inr result)"

definition MCPClient_process_prompt ::
  "client_env \<Rightarrow> string \<Rightarrow> string \<Rightarrow> http_call list \<Rightarrow> dict \<times> http_call list" where
  "MCPClient_process_prompt ce server_url prompt sent =
     (let search_terms = py_strip ce (py_lower ce prompt);
          q = text_search_query search_terms;
          (result, sent') = MCPClient_search_documents ce server_url (Some q) 20 0 None sent
      in case add_prompt_metadata prompt result of
           Inr result' \<Rightarrow> (result', sent')
         | Inl ex \<Rightarrow>
             ([(''success'', PBool False),
               (''error'', PStr (''Prompt processing failed: '' @ str_exn ce ex)),
               (''data'', PList []),
               (''metadata'', PDict [(''original_prompt'', PStr prompt)])],
              sent'))"

section \<open>Example environments\<close>

text \<open>
  Concrete environments on which the theorems below are evaluated: a \<open>str()\<close> that
  returns the text an exception or a string carries, Unicode functions that are never
  reached on the ASCII examples, a pydantic that converts nothing and reads
  \<open>error: str = None\<close> as optional (\<open>memory_env\<close>) or not (\<open>strict_env\<close>), and a collection
  in memory in which every record matches every filter. They are test fixtures, not
  part of the repository.
\<close>

definition sample_str_val :: "pyval \<Rightarrow> string" where
  "sample_str_val v = (case v of PStr s \<Rightarrow> s | PObjectId h \<Rightarrow> h | _ \<Rightarrow> ''?'')"

definition sample_str_exn :: "exn \<Rightarrow> string" where
  "sample_str_exn ex =
     (case ex of
        ValidationError errs \<Rightarrow> ''validation error''
      | PyMongoError m \<Rightarrow> m
      | HTTPException code detail \<Rightarrow> detail
      | RequestException m \<Rightarrow> m
      | ValueError m \<Rightarrow> m
      | TypeError m \<Rightarrow> m
      | AttributeError m \<Rightarrow> m
      | OtherException m \<Rightarrow> m)"

definition memory_env :: "dict list \<Rightarrow> env" where
  "memory_env docs =
     \<lparr>str_val = sample_str_val,
      str_exn = sample_str_exn,
      unicode_lower = (\<lambda>s. s),
      unicode_upper = (\<lambda>s. s),
      unicode_strip = (\<lambda>s. s),
      lax_int = (\<lambda>v. None),
      lax_dict = (\<lambda>v. None),
      lax_str_list = (\<lambda>v. None),
      implicit_optional = True,
      coll_find = (\<lambda>q s l. Inr (take (nat l) (drop (nat s) docs))),
      coll_count = (\<lambda>q. Inr (int (length docs)))\<rparr>"

definition broken_count_env :: "dict list \<Rightarrow> env" where
  "broken_count_env docs = (memory_env docs)\<lparr>coll_count := (\<lambda>q. Inl (PyMongoError ''count failed''))\<rparr>"

definition broken_find_env :: env where
  "broken_find_env = (memory_env [])\<lparr>coll_find := (\<lambda>q s l. Inl (PyMongoError ''find failed''))\<rparr>"

definition strict_env :: "dict list \<Rightarrow> env" where
  "strict_env docs = (memory_env docs)\<lparr>implicit_optional := False\<rparr>"

definition sample_record :: dict where
  "sample_record = [(''_id'', PStr ''x''), (''a'', PInt 1), (''b'', PInt 2)]"

definition linked_record :: dict where
  "linked_record = [(''_id'', PObjectId ''65a1''), (''owner'', PObjectId ''65b2'')]"

definition offline_client :: client_env where
  "offline_client =
     \<lparr>str_val = sample_str_val,
      str_exn = sample_str_exn,
      unicode_lower = (\<lambda>s. s),
      unicode_upper = (\<lambda>s. s),
      unicode_strip = (\<lambda>s. s),
      session_get = (\<lambda>url. Inl (RequestException ''connection refused'')),
      session_post = (\<lambda>url payload. Inl (RequestException ''connection refused''))\<rparr>"

definition replying_client :: "pyval \<Rightarrow> client_env" where
  "replying_client response =
     \<lparr>str_val = sample_str_val,
      str_exn = sample_str_exn,
      unicode_lower = (\<lambda>s. s),
      unicode_upper = (\<lambda>s. s),
      unicode_strip = (\<lambda>s. s),
      session_get = (\<lambda>url. Inr response),
      session_post = (\<lambda>url payload. Inr response)\<rparr>"

text \<open>Two tools for the registry: one returns a fixed result, one raises.\<close>

definition fixed_tool :: "ToolOutput \<Rightarrow> BaseTool" where
  "fixed_tool output =
     \<lparr>name = ''fixed'',
      description = ''returns a fixed result'',
      execute = (\<lambda>i calls. (Inr output, calls))\<rparr>"

definition raising_tool :: BaseTool where
  "raising_tool =
     \<lparr>name = ''raising'',
      description = ''raises'',
      execute = (\<lambda>i calls. (Inl (OtherException ''boom''), calls))\<rparr>"

section \<open>Dictionaries: lookup after update\<close>

lemma map_of_dict_set: "map_of (dict_set d k v) = (map_of d)(k \<mapsto> v)"
  by (induction d k v rule: dict_set.induct) auto

lemma keys_dict_set:
  "map fst (dict_set d k v) = (if k \<in> fst ` set d then map fst d else map fst d @ [k])"
  by (induction d k v rule: dict_set.induct) auto

lemma distinct_dict_set: "distinct (map fst d) \<Longrightarrow> distinct (map fst (dict_set d k v))"
  by (simp add: keys_dict_set)

section \<open>The document search tool\<close>

subsection \<open>The field filter, one record at a time\<close>

lemma map_of_filter_loop:
  "map_of (foldl (\<lambda>acc field. case map_of doc field of Some v \<Rightarrow> dict_set acc field v | None \<Rightarrow> acc) acc fs) k =
     (if k \<in> set fs \<and> map_of doc k \<noteq> None then map_of doc k else map_of acc k)"
  by (induction fs arbitrary: acc) (auto simp: map_of_dict_set split: option.splits)

lemma distinct_filter_loop:
  "distinct (map fst acc) \<Longrightarrow>
   distinct (map fst (foldl (\<lambda>acc field. case map_of doc field of Some v \<Rightarrow> dict_set acc field v | None \<Rightarrow> acc) acc fs))"
  by (induction fs arbitrary: acc) (auto simp: distinct_dict_set split: option.splits)

lemma map_of_filter_doc:
  "map_of (filter_doc fs doc) k = (if k \<in> set fs \<or> k = ''_id'' then map_of doc k else None)"
  by (auto simp: filter_doc_def Let_def map_of_filter_loop map_of_dict_set split: option.splits)

lemma distinct_filter_doc: "distinct (map fst (filter_doc fs doc))"
  by (simp add: filter_doc_def Let_def distinct_filter_loop distinct_dict_set split: option.splits)

subsection \<open>The paths through \<open>execute\<close>\<close>

lemma execute_try_valid:
  "MongoDBSearchInput_validate e i = Inr si \<Longrightarrow>
   execute_try e i c =
     (case coll_find e (query si) (skip si) (limit si) of
        Inl ex \<Rightarrow> (Inl ex, c @ [FindCall (query si) (skip si) (limit si)])
      | Inr found \<Rightarrow>
          (case coll_count e (query si) of
             Inr cnt \<Rightarrow>
               (Inr \<lparr>success = True,
                     data = PList (map PDict (filter_fields (fields' si) (map (stringify_id e) found))),
                     error = None,
                     metadata = search_metadata si cnt (filter_fields (fields' si) (map (stringify_id e) found))\<rparr>,
                c @ [FindCall (query si) (skip si) (limit si), CountCall (query si)])
           | Inl (PyMongoError m) \<Rightarrow>
               (Inr \<lparr>success = True,
                     data = PList (map PDict (filter_fields (fields' si) (map (stringify_id e) found))),
                     error = None,
                     metadata = search_metadata si 0 (filter_fields (fields' si) (map (stringify_id e) found))\<rparr>,
                c @ [FindCall (query si) (skip si) (limit si), CountCall (query si)])
           | Inl ex \<Rightarrow> (Inl ex, c @ [FindCall (query si) (skip si) (limit si), CountCall (query si)])))"
  by (simp add: execute_try_def MongoDBClient_search_documents_def MongoDBClient_count_documents_def Let_def
           split: sum.splits exn.splits)

lemma execute_try_invalid:
  "MongoDBSearchInput_validate e i = Inl ex \<Longrightarrow> execute_try e i c = (Inl ex, c)"
  by (simp add: execute_try_def)

lemma validate_bounds:
  "MongoDBSearchInput_validate e i = Inr si \<Longrightarrow> 1 \<le> limit si \<and> limit si \<le> 100 \<and> 0 \<le> skip si"
  by (auto simp: MongoDBSearchInput_validate_def validate_limit_def validate_skip_def
           split: sum.splits option.splits if_splits)

lemma execute_success_data:
  assumes "MongoDBSearchInput_validate e i = Inr si"
      and "MongoDBSearchTool_execute e i c = (Inr r, c')"
      and "success r"
  shows "\<exists>found. coll_find e (query si) (skip si) (limit si) = Inr found \<and>
           data r = PList (map PDict (filter_fields (fields' si) (map (stringify_id e) found))) \<and>
           c' = c @ [FindCall (query si) (skip si) (limit si), CountCall (query si)]"
  using assms
  by (auto simp: MongoDBSearchTool_execute_def execute_try_valid search_failed_def
           split: sum.splits exn.splits)

text \<open>
  Claim C4. With a non-empty \<open>fields\<close> list every record is passed through the filter;
  the filtered record has exactly the requested keys that the record has, plus \<open>_id\<close>
  when the record has one, each with the record's value: a key that was not requested is
  dropped, a requested key that the record lacks is left out without an error. The keys
  of the filtered record are distinct. In a successful run of \<open>execute\<close> the data are the
  records of the store, each with its \<open>_id\<close> as a string, passed through this filter.
\<close>

theorem field_filter_exact:
  "fs \<noteq> [] \<Longrightarrow>
     filter_fields (Some fs) docs = map (filter_doc fs) docs \<and>
     (\<forall>doc k. map_of (filter_doc fs doc) k =
        (if k \<in> set fs \<or> k = ''_id'' then map_of doc k else None)) \<and>
     (\<forall>doc. distinct (dict_keys (filter_doc fs doc))) \<and>
     (\<forall>e i c si r c'.
        MongoDBSearchInput_validate e i = Inr si \<and> fields' si = Some fs \<and>
        MongoDBSearchTool_execute e i c = (Inr r, c') \<and> success r \<longrightarrow>
        (\<exists>found. coll_find e (query si) (skip si) (limit si) = Inr found \<and>
           data r = PList (map (\<lambda>doc. PDict (filter_doc fs (stringify_id e doc))) found)))"
proof (intro conjI allI impI)
  assume ne: "fs \<noteq> []"
  show "filter_fields (Some fs) docs = map (filter_doc fs) docs"
    using ne by (simp add: filter_fields_def)
  show "map_of (filter_doc fs doc) k = (if k \<in> set fs \<or> k = ''_id'' then map_of doc k else None)"
    for doc k by (rule map_of_filter_doc)
  show "distinct (dict_keys (filter_doc fs doc))" for doc
    by (simp add: dict_keys_def distinct_filter_doc)
  fix e i c si r c'
  assume h: "MongoDBSearchInput_validate e i = Inr si \<and> fields' si = Some fs \<and>
        MongoDBSearchTool_execute e i c = (Inr r, c') \<and> success r"
  then obtain found where "coll_find e (query si) (skip si) (limit si) = Inr found"
     and "data r = PList (map PDict (filter_fields (fields' si) (map (stringify_id e) found)))"
    using execute_success_data by blast
  with h ne show "\<exists>found. coll_find e (query si) (skip si) (limit si) = Inr found \<and>
           data r = PList (map (\<lambda>doc. PDict (filter_doc fs (stringify_id e doc))) found)"
    by (simp add: filter_fields_def comp_def)
qed

lemma sample_inputs_valid:
  "MongoDBSearchInput_validate (memory_env docs) [(''fields'', PList [PStr ''a''])] =
     Inr \<lparr>query = [], limit = 10, skip = 0, fields' = Some [''a'']\<rparr>"
  by (simp add: MongoDBSearchInput_validate_def validate_query_def validate_limit_def
        validate_skip_def validate_fields_def as_str_list_def)

text \<open>
  The two examples: \<open>fields=["a"]\<close> and \<open>fields=["c"]\<close> on the record
  \<open>{"_id": "x", "a": 1, "b": 2}\<close>. The filtered dict lists \<open>a\<close> before \<open>_id\<close>, the order
  in which the code inserts them; Python compares dicts without regard to order.
\<close>

theorem field_filter_exact_witness:
  "[''a''] \<noteq> [] \<and>
   filter_fields (Some [''a'']) [sample_record] = [[(''a'', PInt 1), (''_id'', PStr ''x'')]] \<and>
   filter_fields (Some [''c'']) [sample_record] = [[(''_id'', PStr ''x'')]] \<and>
   map_of (filter_doc [''a''] sample_record) ''b'' = None \<and>
   fst (MongoDBSearchTool_execute (memory_env [sample_record]) [(''fields'', PList [PStr ''a''])] []) =
     Inr \<lparr>success = True,
          data = PList [PDict [(''a'', PInt 1), (''_id'', PStr ''x'')]],
          error = None,
          metadata = [(''total_count'', PInt 1), (''returned_count'', PInt 1), (''query'', PDict []),
                      (''limit'', PInt 10), (''skip'', PInt 0), (''has_more'', PBool False)]\<rparr>"
proof -
  have run: "fst (MongoDBSearchTool_execute (memory_env [sample_record]) [(''fields'', PList [PStr ''a''])] []) =
     Inr \<lparr>success = True,
          data = PList [PDict [(''a'', PInt 1), (''_id'', PStr ''x'')]],
          error = None,
          metadata = [(''total_count'', PInt 1), (''returned_count'', PInt 1), (''query'', PDict []),
                      (''limit'', PInt 10), (''skip'', PInt 0), (''has_more'', PBool False)]\<rparr>"
    unfolding MongoDBSearchTool_execute_def execute_try_valid [OF sample_inputs_valid]
    by (simp add: memory_env_def sample_record_def stringify_id_def filter_fields_def
          filter_doc_def search_metadata_def sample_str_val_def)
  show ?thesis
    using field_filter_exact [of "[''a'']" "[sample_record]"]
      field_filter_exact [of "[''c'']" "[sample_record]"] run
    by (simp add: sample_record_def filter_doc_def)
qed

subsection \<open>Validation before the store\<close>

lemma as_int_PInt: "as_int e (PInt n) = Some n"
  by (simp add: as_int_def)

lemma validate_inl:
  "MongoDBSearchInput_validate e i = Inl ex \<Longrightarrow>
     ex = ValidationError (errors_of (validate_query e i) @ errors_of (validate_limit e i) @
                           errors_of (validate_skip e i) @ errors_of (validate_fields e i))"
  by (auto simp: MongoDBSearchInput_validate_def split: sum.splits)

lemma validate_limit_out_of_range:
  "map_of i ''limit'' = Some v \<Longrightarrow> as_int e v = Some n \<Longrightarrow> n < 1 \<or> 100 < n \<Longrightarrow>
     \<exists>c. validate_limit e i = Inl [(''limit'', c)]"
  by (auto simp: validate_limit_def)

lemma validate_skip_negative:
  "map_of i ''skip'' = Some v \<Longrightarrow> as_int e v = Some n \<Longrightarrow> n < 0 \<Longrightarrow>
     validate_skip e i = Inl [(''skip'', NotGe 0)]"
  by (auto simp: validate_skip_def)

lemma validate_fails_limit:
  "validate_limit e i = Inl errs \<Longrightarrow> \<exists>ex. MongoDBSearchInput_validate e i = Inl ex"
  by (auto simp: MongoDBSearchInput_validate_def split: sum.splits)

lemma validate_fails_skip:
  "validate_skip e i = Inl errs \<Longrightarrow> \<exists>ex. MongoDBSearchInput_validate e i = Inl ex"
  by (auto simp: MongoDBSearchInput_validate_def split: sum.splits)

lemma execute_invalid:
  "MongoDBSearchInput_validate e i = Inl ex \<Longrightarrow>
     MongoDBSearchTool_execute e i c = (Inr (search_failed e i ex), c)"
  by (simp add: MongoDBSearchTool_execute_def execute_try_invalid)

text \<open>
  Claim C3. When the \<open>limit\<close> given is (after conversion to an integer) below 1 or above
  100, or the \<open>skip\<close> given is negative, building the input model raises a
  \<open>ValidationError\<close> with at least one entry, \<open>execute\<close> returns the failure result
  carrying its text, and the list of calls made to the store is the one it started with:
  neither \<open>find\<close> nor \<open>count_documents\<close> is called. An integer input is its own conversion
  (\<open>as_int_PInt\<close>).
\<close>

theorem out_of_range_rejected:
  assumes "(\<exists>v n. map_of i ''limit'' = Some v \<and> as_int e v = Some n \<and> (n < 1 \<or> 100 < n)) \<or>
           (\<exists>v n. map_of i ''skip'' = Some v \<and> as_int e v = Some n \<and> n < 0)"
  shows "\<exists>errs. MongoDBSearchInput_validate e i = Inl (ValidationError errs) \<and> errs \<noteq> [] \<and>
           MongoDBSearchTool_execute e i c =
             (Inr \<lparr>success = False,
                   data = PNone,
                   error = Some (''MongoDB search failed: '' @ str_exn e (ValidationError errs)),
                   metadata = [(''query'', dict_get i ''query'' (PDict []))]\<rparr>,
              c)"
proof -
  let ?errs = "errors_of (validate_query e i) @ errors_of (validate_limit e i) @
               errors_of (validate_skip e i) @ errors_of (validate_fields e i)"
  from assms have bad: "(\<exists>es. validate_limit e i = Inl es \<and> es \<noteq> []) \<or>
                        (\<exists>es. validate_skip e i = Inl es \<and> es \<noteq> [])"
    using validate_limit_out_of_range validate_skip_negative by blast
  then obtain ex where ex: "MongoDBSearchInput_validate e i = Inl ex"
    using validate_fails_limit validate_fails_skip by blast
  then have shape: "ex = ValidationError ?errs" by (rule validate_inl)
  from bad have "?errs \<noteq> []" by (auto simp: errors_of_def)
  moreover from ex shape have "MongoDBSearchTool_execute e i c =
             (Inr \<lparr>success = False,
                   data = PNone,
                   error = Some (''MongoDB search failed: '' @ str_exn e (ValidationError ?errs)),
                   metadata = [(''query'', dict_get i ''query'' (PDict []))]\<rparr>,
              c)"
    by (simp add: execute_invalid search_failed_def)
  ultimately show ?thesis using ex shape by blast
qed

text \<open>The three inputs of the specification: \<open>limit=0\<close>, \<open>limit=101\<close> and \<open>skip=-1\<close>.\<close>

theorem out_of_range_rejected_witness:
  "MongoDBSearchTool_execute (memory_env [sample_record]) [(''limit'', PInt 0)] [] =
     (Inr \<lparr>success = False, data = PNone,
           error = Some ''MongoDB search failed: validation error'',
           metadata = [(''query'', PDict [])]\<rparr>, []) \<and>
   MongoDBSearchTool_execute (memory_env [sample_record]) [(''limit'', PInt 101)] [] =
     (Inr \<lparr>success = False, data = PNone,
           error = Some ''MongoDB search failed: validation error'',
           metadata = [(''query'', PDict [])]\<rparr>, []) \<and>
   MongoDBSearchTool_execute (memory_env [sample_record]) [(''skip'', PInt (- 1))] [] =
     (Inr \<lparr>success = False, data = PNone,
           error = Some ''MongoDB search failed: validation error'',
           metadata = [(''query'', PDict [])]\<rparr>, [])"
  using out_of_range_rejected [of "[(''limit'', PInt 0)]" "memory_env [sample_record]" "[]"]
    out_of_range_rejected [of "[(''limit'', PInt 101)]" "memory_env [sample_record]" "[]"]
    out_of_range_rejected [of "[(''skip'', PInt (- 1))]" "memory_env [sample_record]" "[]"]
  by (auto simp: as_int_def dict_get_def memory_env_def sample_str_exn_def)

subsection \<open>The metadata of a successful search\<close>

lemma execute_valid_result:
  assumes "MongoDBSearchInput_validate e i = Inr si"
      and "MongoDBSearchTool_execute e i c = (Inr r, c')"
      and "success r"
  shows "\<exists>found cnt.
           coll_find e (query si) (skip si) (limit si) = Inr found \<and>
           (coll_count e (query si) = Inr cnt \<or>
            (\<exists>m. coll_count e (query si) = Inl (PyMongoError m)) \<and> cnt = 0) \<and>
           r = \<lparr>success = True,
                data = PList (map PDict (filter_fields (fields' si) (map (stringify_id e) found))),
                error = None,
                metadata = search_metadata si cnt (filter_fields (fields' si) (map (stringify_id e) found))\<rparr> \<and>
           c' = c @ [FindCall (query si) (skip si) (limit si), CountCall (query si)]"
  using assms
  by (auto simp: MongoDBSearchTool_execute_def execute_try_valid search_failed_def
           split: sum.splits exn.splits)

lemma execute_success_valid:
  assumes "MongoDBSearchTool_execute e i c = (Inr r, c')" and "success r"
  shows "\<exists>si. MongoDBSearchInput_validate e i = Inr si"
proof (cases "MongoDBSearchInput_validate e i")
  case (Inl ex)
  with assms show ?thesis by (auto simp: execute_invalid search_failed_def)
next
  case (Inr si)
  then show ?thesis by blast
qed

text \<open>
  Claim C5. A result with \<open>success\<close> set comes from inputs that validate, with \<open>limit\<close>
  in 1..100 and \<open>skip\<close> at least 0; the store was asked once for the page and once for
  the count, both with the validated filter; \<open>total_count\<close> is the count obtained (0 when
  the count raised a \<open>PyMongoError\<close>), \<open>returned_count\<close> is the length of the data, \<open>query\<close>,
  \<open>limit\<close> and \<open>skip\<close> are the validated inputs, and \<open>has_more\<close> is
  \<open>total_count > skip + returned_count\<close>.
\<close>

theorem success_metadata:
  assumes "MongoDBSearchTool_execute e i c = (Inr r, c')" and "success r"
  shows "\<exists>si docs cnt.
           MongoDBSearchInput_validate e i = Inr si \<and>
           1 \<le> limit si \<and> limit si \<le> 100 \<and> 0 \<le> skip si \<and>
           c' = c @ [FindCall (query si) (skip si) (limit si), CountCall (query si)] \<and>
           (coll_count e (query si) = Inr cnt \<or>
            (\<exists>m. coll_count e (query si) = Inl (PyMongoError m)) \<and> cnt = 0) \<and>
           data r = PList (map PDict docs) \<and>
           metadata r =
             [(''total_count'', PInt cnt),
              (''returned_count'', PInt (int (length docs))),
              (''query'', PDict (query si)),
              (''limit'', PInt (limit si)),
              (''skip'', PInt (skip si)),
              (''has_more'', PBool (cnt > skip si + int (length docs)))]"
proof -
  from assms obtain si where si: "MongoDBSearchInput_validate e i = Inr si"
    using execute_success_valid by blast
  from execute_valid_result [OF si assms] obtain found cnt where
    cnt: "coll_count e (query si) = Inr cnt \<or>
            (\<exists>m. coll_count e (query si) = Inl (PyMongoError m)) \<and> cnt = 0"
    and r: "r = \<lparr>success = True,
                data = PList (map PDict (filter_fields (fields' si) (map (stringify_id e) found))),
                error = None,
                metadata = search_metadata si cnt (filter_fields (fields' si) (map (stringify_id e) found))\<rparr>"
    and c': "c' = c @ [FindCall (query si) (skip si) (limit si), CountCall (query si)]"
    by blast
  let ?docs = "filter_fields (fields' si) (map (stringify_id e) found)"
  have "data r = PList (map PDict ?docs)" using r by simp
  moreover have "metadata r =
             [(''total_count'', PInt cnt),
              (''returned_count'', PInt (int (length ?docs))),
              (''query'', PDict (query si)),
              (''limit'', PInt (limit si)),
              (''skip'', PInt (skip si)),
              (''has_more'', PBool (cnt > skip si + int (length ?docs)))]"
    using r by (simp add: search_metadata_def)
  ultimately show ?thesis using si validate_bounds [OF si] cnt c' by blast
qed

lemma page_inputs_valid:
  "0 \<le> s \<Longrightarrow>
   MongoDBSearchInput_validate (memory_env docs) [(''limit'', PInt 10), (''skip'', PInt s)] =
     Inr \<lparr>query = [], limit = 10, skip = s, fields' = None\<rparr>"
  by (simp add: MongoDBSearchInput_validate_def validate_query_def validate_limit_def
        validate_skip_def validate_fields_def as_int_def)

lemma page_run:
  assumes "0 \<le> s"
  shows "MongoDBSearchTool_execute (memory_env docs) [(''limit'', PInt 10), (''skip'', PInt s)] [] =
     (Inr \<lparr>success = True,
           data = PList (map PDict (map (stringify_id (memory_env docs)) (take 10 (drop (nat s) docs)))),
           error = None,
           metadata = [(''total_count'', PInt (int (length docs))),
              (''returned_count'', PInt (int (min (length docs - nat s) 10))),
              (''query'', PDict []),
              (''limit'', PInt 10),
              (''skip'', PInt s),
              (''has_more'', PBool (int (length docs) > s + int (min (length docs - nat s) 10)))]\<rparr>,
      [FindCall [] s 10, CountCall []])"
  unfolding MongoDBSearchTool_execute_def execute_try_valid [OF page_inputs_valid [OF assms]]
  by (simp add: memory_env_def filter_fields_def search_metadata_def)

text \<open>
  The example of the specification: 25 matching records, \<open>limit=10\<close>, with \<open>skip=0\<close>
  and with \<open>skip=20\<close>.
\<close>

theorem success_metadata_witness:
  "(\<exists>r c'. MongoDBSearchTool_execute (memory_env (replicate 25 sample_record))
               [(''limit'', PInt 10), (''skip'', PInt 0)] [] = (Inr r, c') \<and> success r \<and>
            metadata r = [(''total_count'', PInt 25), (''returned_count'', PInt 10),
                          (''query'', PDict []), (''limit'', PInt 10), (''skip'', PInt 0),
                          (''has_more'', PBool True)]) \<and>
   (\<exists>r c'. MongoDBSearchTool_execute (memory_env (replicate 25 sample_record))
               [(''limit'', PInt 10), (''skip'', PInt 20)] [] = (Inr r, c') \<and> success r \<and>
            metadata r = [(''total_count'', PInt 25), (''returned_count'', PInt 5),
                          (''query'', PDict []), (''limit'', PInt 10), (''skip'', PInt 20),
                          (''has_more'', PBool False)])"
proof -
  let ?e = "memory_env (replicate 25 sample_record)"
  let ?r0 = "fst (MongoDBSearchTool_execute ?e [(''limit'', PInt 10), (''skip'', PInt 0)] [])"
  have run0: "MongoDBSearchTool_execute ?e [(''limit'', PInt 10), (''skip'', PInt 0)] [] =
     (Inr \<lparr>success = True,
           data = PList (map PDict (map (stringify_id ?e) (take 10 (drop (nat 0) (replicate 25 sample_record))))),
           error = None,
           metadata = [(''total_count'', PInt 25), (''returned_count'', PInt 10),
                          (''query'', PDict []), (''limit'', PInt 10), (''skip'', PInt 0),
                          (''has_more'', PBool True)]\<rparr>,
      [FindCall [] 0 10, CountCall []])"
    using page_run [of 0 "replicate 25 sample_record"] by simp
  have run20: "MongoDBSearchTool_execute ?e [(''limit'', PInt 10), (''skip'', PInt 20)] [] =
     (Inr \<lparr>success = True,
           data = PList (map PDict (map (stringify_id ?e) (take 10 (drop (nat 20) (replicate 25 sample_record))))),
           error = None,
           metadata = [(''total_count'', PInt 25), (''returned_count'', PInt 5),
                          (''query'', PDict []), (''limit'', PInt 10), (''skip'', PInt 20),
                          (''has_more'', PBool False)]\<rparr>,
      [FindCall [] 20 10, CountCall []])"
    using page_run [of 20 "replicate 25 sample_record"] by simp
  from success_metadata [OF run0] success_metadata [OF run20] run0 run20
  show ?thesis by simp
qed

subsection \<open>An empty list of fields\<close>

lemma filter_fields_empty: "filter_fields (Some []) docs = docs"
  by (simp add: filter_fields_def)

lemma validate_fields_empty_list:
  "map_of i ''fields'' = Some (PList []) \<Longrightarrow> validate_fields e i = Inr (Some [])"
  by (simp add: validate_fields_def as_str_list_def)

lemma validate_fields_absent:
  "map_of i ''fields'' = None \<Longrightarrow> validate_fields e i = Inr None"
  by (simp add: validate_fields_def)

lemma execute_try_empty_fields:
  assumes same: "\<forall>k. k \<noteq> ''fields'' \<longrightarrow> map_of i1 k = map_of i2 k"
      and f1: "map_of i1 ''fields'' = Some (PList [])"
      and f2: "map_of i2 ''fields'' = None"
  shows "execute_try e i1 c = execute_try e i2 c"
proof -
  have q: "validate_query e i1 = validate_query e i2"
    using same by (simp add: validate_query_def)
  have l: "validate_limit e i1 = validate_limit e i2"
    using same by (simp add: validate_limit_def)
  have s: "validate_skip e i1 = validate_skip e i2"
    using same by (simp add: validate_skip_def)
  show ?thesis
  proof (cases "MongoDBSearchInput_validate e i2")
    case (Inl ex)
    then have "MongoDBSearchInput_validate e i1 = Inl ex"
      using q l s validate_fields_empty_list [OF f1] validate_fields_absent [OF f2]
      by (auto simp: MongoDBSearchInput_validate_def errors_of_def split: sum.splits)
    with Inl show ?thesis by (simp add: execute_try_invalid)
  next
    case (Inr si)
    then have v1: "MongoDBSearchInput_validate e i1 = Inr (si\<lparr>fields' := Some []\<rparr>)"
      and v2: "fields' si = None"
      using q l s validate_fields_empty_list [OF f1] validate_fields_absent [OF f2]
      by (auto simp: MongoDBSearchInput_validate_def split: sum.splits)
    show ?thesis
      unfolding execute_try_valid [OF v1] execute_try_valid [OF Inr]
      by (simp add: v2 filter_fields_def search_metadata_def split: sum.splits exn.splits)
  qed
qed

text \<open>
  Claim C10. With \<open>fields=[]\<close> the records are not filtered: every record keeps all its
  keys, as with no \<open>fields\<close> at all; and two inputs that differ only in that one has
  \<open>fields=[]\<close> and the other has no \<open>fields\<close> give the same result and the same calls to
  the store.
\<close>

theorem empty_fields_unfiltered:
  "filter_fields (Some []) docs = docs \<and>
   filter_fields (Some []) docs = filter_fields None docs \<and>
   ((\<forall>k. k \<noteq> ''fields'' \<longrightarrow> map_of i1 k = map_of i2 k) \<and>
    map_of i1 ''fields'' = Some (PList []) \<and> map_of i2 ''fields'' = None \<longrightarrow>
      MongoDBSearchTool_execute e i1 c = MongoDBSearchTool_execute e i2 c)"
proof (intro conjI impI)
  show "filter_fields (Some []) docs = docs" by (rule filter_fields_empty)
  show "filter_fields (Some []) docs = filter_fields None docs" by (simp add: filter_fields_def)
  assume h: "(\<forall>k. k \<noteq> ''fields'' \<longrightarrow> map_of i1 k = map_of i2 k) \<and>
    map_of i1 ''fields'' = Some (PList []) \<and> map_of i2 ''fields'' = None"
  then have "execute_try e i1 c = execute_try e i2 c"
    using execute_try_empty_fields by blast
  moreover from h have "search_failed e i1 = search_failed e i2"
    by (simp add: search_failed_def dict_get_def fun_eq_iff)
  ultimately show "MongoDBSearchTool_execute e i1 c = MongoDBSearchTool_execute e i2 c"
    by (simp add: MongoDBSearchTool_execute_def split: prod.splits sum.splits)
qed

lemma empty_fields_inputs_valid:
  "MongoDBSearchInput_validate (memory_env docs) [(''fields'', PList [])] =
     Inr \<lparr>query = [], limit = 10, skip = 0, fields' = Some []\<rparr>"
  by (simp add: MongoDBSearchInput_validate_def validate_query_def validate_limit_def
        validate_skip_def validate_fields_def as_str_list_def)

text \<open>One record, searched with \<open>fields=[]\<close> and with no inputs at all.\<close>

theorem empty_fields_unfiltered_witness:
  "filter_fields (Some []) [sample_record] = [sample_record] \<and>
   MongoDBSearchTool_execute (memory_env [sample_record]) [] [] =
     MongoDBSearchTool_execute (memory_env [sample_record]) [(''fields'', PList [])] [] \<and>
   fst (MongoDBSearchTool_execute (memory_env [sample_record]) [(''fields'', PList [])] []) =
     Inr \<lparr>success = True,
          data = PList [PDict [(''_id'', PStr ''x''), (''a'', PInt 1), (''b'', PInt 2)]],
          error = None,
          metadata = [(''total_count'', PInt 1), (''returned_count'', PInt 1), (''query'', PDict []),
                      (''limit'', PInt 10), (''skip'', PInt 0), (''has_more'', PBool False)]\<rparr>"
proof -
  have run: "fst (MongoDBSearchTool_execute (memory_env [sample_record]) [(''fields'', PList [])] []) =
     Inr \<lparr>success = True,
          data = PList [PDict [(''_id'', PStr ''x''), (''a'', PInt 1), (''b'', PInt 2)]],
          error = None,
          metadata = [(''total_count'', PInt 1), (''returned_count'', PInt 1), (''query'', PDict []),
                      (''limit'', PInt 10), (''skip'', PInt 0), (''has_more'', PBool False)]\<rparr>"
    unfolding MongoDBSearchTool_execute_def execute_try_valid [OF empty_fields_inputs_valid]
    by (simp add: memory_env_def sample_record_def stringify_id_def filter_fields_def
          search_metadata_def sample_str_val_def)
  show ?thesis
    using empty_fields_unfiltered [of "[sample_record]" "[(''fields'', PList [])]" "[]"
        "memory_env [sample_record]" "[]"] run
    by simp
qed

subsection \<open>\<open>execute\<close> returns\<close>

lemma execute_returns:
  "\<exists>r c'. MongoDBSearchTool_execute e i c = (Inr r, c')"
  by (simp add: MongoDBSearchTool_execute_def split: prod.splits sum.splits)

lemma execute_converts:
  "fst (execute_try e i c) = Inl ex \<Longrightarrow>
     fst (MongoDBSearchTool_execute e i c) = Inr (search_failed e i ex)"
  by (auto simp: MongoDBSearchTool_execute_def split: prod.splits sum.splits)

lemma handler_returns:
  "\<exists>r c'. ToolHandler_execute_tool e ts n i c = (Inr r, c')"
  by (simp add: ToolHandler_execute_tool_def split: prod.splits sum.splits)

lemma execute_try_find_raises:
  "MongoDBSearchInput_validate e i = Inr si \<Longrightarrow>
   coll_find e (query si) (skip si) (limit si) = Inl ex \<Longrightarrow>
     execute_try e i c = (Inl ex, c @ [FindCall (query si) (skip si) (limit si)])"
  by (simp add: execute_try_valid)

lemma execute_try_count_raises:
  "MongoDBSearchInput_validate e i = Inr si \<Longrightarrow>
   coll_find e (query si) (skip si) (limit si) = Inr found \<Longrightarrow>
   coll_count e (query si) = Inl ex \<Longrightarrow> \<forall>m. ex \<noteq> PyMongoError m \<Longrightarrow>
     execute_try e i c =
       (Inl ex, c @ [FindCall (query si) (skip si) (limit si), CountCall (query si)])"
  by (simp add: execute_try_valid split: exn.splits)

text \<open>
  For every input mapping and every behaviour of the libraries and of the store,
  \<open>execute\<close> returns a result and raises nothing; whatever exception leaves its \<open>try\<close>
  block becomes the failure result with \<open>success\<close> false, the message
  \<open>MongoDB search failed: \<close> followed by the exception's text, and the raw \<open>query\<close>
  input as metadata. The exceptions that leave the block are: a validation error, an
  exception of the paginated query, and an exception of the count other than a
  \<open>PyMongoError\<close>. The registry's \<open>execute_tool\<close> returns a result for every tool, also
  one whose \<open>execute\<close> raises.
\<close>

lemma execute_never_raises:
  "(\<exists>r c'. MongoDBSearchTool_execute e i c = (Inr r, c') \<and>
      (\<forall>ex. fst (execute_try e i c) = Inl ex \<longrightarrow>
         success r = False \<and>
         error r = Some (''MongoDB search failed: '' @ str_exn e ex) \<and>
         metadata r = [(''query'', dict_get i ''query'' (PDict []))])) \<and>
   (\<forall>ex. MongoDBSearchInput_validate e i = Inl ex \<longrightarrow> fst (execute_try e i c) = Inl ex) \<and>
   (\<forall>si ex. MongoDBSearchInput_validate e i = Inr si \<and>
        coll_find e (query si) (skip si) (limit si) = Inl ex \<longrightarrow>
        fst (execute_try e i c) = Inl ex) \<and>
   (\<forall>si found ex. MongoDBSearchInput_validate e i = Inr si \<and>
        coll_find e (query si) (skip si) (limit si) = Inr found \<and>
        coll_count e (query si) = Inl ex \<and> (\<forall>m. ex \<noteq> PyMongoError m) \<longrightarrow>
        fst (execute_try e i c) = Inl ex) \<and>
   (\<forall>ts n. \<exists>r c'. ToolHandler_execute_tool e ts n i c = (Inr r, c'))"
proof (intro conjI allI impI)
  obtain r c' where run: "MongoDBSearchTool_execute e i c = (Inr r, c')"
    using execute_returns by blast
  have "success r = False \<and>
         error r = Some (''MongoDB search failed: '' @ str_exn e ex) \<and>
         metadata r = [(''query'', dict_get i ''query'' (PDict []))]"
    if "fst (execute_try e i c) = Inl ex" for ex
    using execute_converts [OF that] run by (simp add: search_failed_def)
  with run show "\<exists>r c'. MongoDBSearchTool_execute e i c = (Inr r, c') \<and>
      (\<forall>ex. fst (execute_try e i c) = Inl ex \<longrightarrow>
         success r = False \<and>
         error r = Some (''MongoDB search failed: '' @ str_exn e ex) \<and>
         metadata r = [(''query'', dict_get i ''query'' (PDict []))])"
    by blast
next
  fix ex assume "MongoDBSearchInput_validate e i = Inl ex"
  then show "fst (execute_try e i c) = Inl ex" by (simp add: execute_try_invalid)
next
  fix si ex
  assume "MongoDBSearchInput_validate e i = Inr si \<and>
        coll_find e (query si) (skip si) (limit si) = Inl ex"
  then show "fst (execute_try e i c) = Inl ex" by (simp add: execute_try_find_raises)
next
  fix si found ex
  assume "MongoDBSearchInput_validate e i = Inr si \<and>
        coll_find e (query si) (skip si) (limit si) = Inr found \<and>
        coll_count e (query si) = Inl ex \<and> (\<forall>m. ex \<noteq> PyMongoError m)"
  then show "fst (execute_try e i c) = Inl ex" by (simp add: execute_try_count_raises)
next
  fix ts n
  show "\<exists>r c'. ToolHandler_execute_tool e ts n i c = (Inr r, c')" by (rule handler_returns)
qed

text \<open>A store whose query raises: the search fails with the cause in the message.\<close>

lemma no_inputs_valid:
  "MongoDBSearchInput_validate (memory_env docs) [] =
     Inr \<lparr>query = [], limit = 10, skip = 0, fields' = None\<rparr>"
  by (simp add: MongoDBSearchInput_validate_def validate_query_def validate_limit_def
        validate_skip_def validate_fields_def)

lemma no_inputs_valid_broken_find:
  "MongoDBSearchInput_validate broken_find_env [] =
     Inr \<lparr>query = [], limit = 10, skip = 0, fields' = None\<rparr>"
  by (simp add: MongoDBSearchInput_validate_def validate_query_def validate_limit_def
        validate_skip_def validate_fields_def)

lemma execute_never_raises_example:
  "MongoDBSearchTool_execute broken_find_env [] [] =
     (Inr \<lparr>success = False, data = PNone,
           error = Some ''MongoDB search failed: find failed'',
           metadata = [(''query'', PDict [])]\<rparr>,
      [FindCall [] 0 10])"
proof -
  have raised: "execute_try broken_find_env [] [] = (Inl (PyMongoError ''find failed''), [FindCall [] 0 10])"
    unfolding execute_try_valid [OF no_inputs_valid_broken_find]
    by (simp add: broken_find_env_def memory_env_def)
  then have calls: "snd (MongoDBSearchTool_execute broken_find_env [] []) = [FindCall [] 0 10]"
    by (simp add: MongoDBSearchTool_execute_def)
  have msg: "str_exn broken_find_env (PyMongoError ''find failed'') = ''find failed''"
    by (simp add: broken_find_env_def memory_env_def sample_str_exn_def)
  from execute_never_raises [of broken_find_env "[]" "[]"] raised
  obtain r c' where run: "MongoDBSearchTool_execute broken_find_env [] [] = (Inr r, c')"
    and "success r = False"
    and "error r = Some (''MongoDB search failed: '' @ str_exn broken_find_env (PyMongoError ''find failed''))"
    and "metadata r = [(''query'', dict_get [] ''query'' (PDict []))]"
    by auto
  moreover have "data r = PNone"
    using run raised by (auto simp: MongoDBSearchTool_execute_def search_failed_def)
  ultimately show ?thesis using calls msg by (cases r) (simp add: dict_get_def)
qed

subsection \<open>A count that fails\<close>

lemma no_inputs_valid_broken_count:
  "MongoDBSearchInput_validate (broken_count_env docs) [] =
     Inr \<lparr>query = [], limit = 10, skip = 0, fields' = None\<rparr>"
  by (simp add: MongoDBSearchInput_validate_def validate_query_def validate_limit_def
        validate_skip_def validate_fields_def)

text \<open>
  Whatever the inputs and the records found, a \<open>PyMongoError\<close> of the count ends in a
  result with \<open>success\<close> true and \<open>total_count\<close> 0.
\<close>

lemma count_error_absorbed:
  assumes "MongoDBSearchInput_validate e i = Inr si"
      and "coll_find e (query si) (skip si) (limit si) = Inr found"
      and "coll_count e (query si) = Inl (PyMongoError m)"
  shows "\<exists>r. MongoDBSearchTool_execute e i c =
               (Inr r, c @ [FindCall (query si) (skip si) (limit si), CountCall (query si)]) \<and>
             success r \<and> error r = None \<and>
             map_of (metadata r) ''total_count'' = Some (PInt 0)"
  using assms
  by (simp add: MongoDBSearchTool_execute_def execute_try_valid search_metadata_def)

text \<open>
  Claim C1. The claim asks for a failure result whenever the count raises. On a store that
  holds one record and whose count raises a \<open>PyMongoError\<close>, \<open>execute\<close> returns
  \<open>success\<close> true with \<open>total_count\<close> 0 beside \<open>returned_count\<close> 1: \<open>count_documents\<close>
  has turned the exception into the count 0, where \<open>search_documents\<close> re-raises.
\<close>

theorem count_failure_reported_as_success:
  "MongoDBSearchTool_execute (broken_count_env [sample_record]) [] [] =
     (Inr \<lparr>success = True,
           data = PList [PDict [(''_id'', PStr ''x''), (''a'', PInt 1), (''b'', PInt 2)]],
           error = None,
           metadata = [(''total_count'', PInt 0), (''returned_count'', PInt 1), (''query'', PDict []),
                       (''limit'', PInt 10), (''skip'', PInt 0), (''has_more'', PBool False)]\<rparr>,
      [FindCall [] 0 10, CountCall []])"
  unfolding MongoDBSearchTool_execute_def execute_try_valid [OF no_inputs_valid_broken_count]
  by (simp add: broken_count_env_def memory_env_def sample_record_def stringify_id_def
        filter_fields_def search_metadata_def sample_str_val_def)

text \<open>
  Claim C2. The claim asks that, whatever the store does, an internal failure ends in a
  result with \<open>success\<close> false. \<open>execute\<close> does return a result for every input
  (\<open>execute_never_raises\<close>), but not every failure is converted: on a store that holds two
  records and whose count raises a \<open>PyMongoError\<close>, a search with \<open>limit=1\<close> returns
  \<open>success\<close> true and no error, with \<open>total_count\<close> 0 and \<open>has_more\<close> false although a
  second record exists. The cause is the one of claim C1: \<open>count_documents\<close> returns 0
  where \<open>search_documents\<close> re-raises.
\<close>

theorem count_failure_not_converted:
  "coll_count (broken_count_env [sample_record, sample_record]) [] =
     Inl (PyMongoError ''count failed'') \<and>
   MongoDBSearchTool_execute (broken_count_env [sample_record, sample_record])
       [(''limit'', PInt 1)] [] =
     (Inr \<lparr>success = True,
           data = PList [PDict [(''_id'', PStr ''x''), (''a'', PInt 1), (''b'', PInt 2)]],
           error = None,
           metadata = [(''total_count'', PInt 0), (''returned_count'', PInt 1), (''query'', PDict []),
                       (''limit'', PInt 1), (''skip'', PInt 0), (''has_more'', PBool False)]\<rparr>,
      [FindCall [] 0 1, CountCall []])"
proof -
  have valid: "MongoDBSearchInput_validate (broken_count_env [sample_record, sample_record])
                 [(''limit'', PInt 1)] =
     Inr \<lparr>query = [], limit = 1, skip = 0, fields' = None\<rparr>"
    by (simp add: MongoDBSearchInput_validate_def validate_query_def validate_limit_def
          validate_skip_def validate_fields_def as_int_def)
  have "MongoDBSearchTool_execute (broken_count_env [sample_record, sample_record])
       [(''limit'', PInt 1)] [] =
     (Inr \<lparr>success = True,
           data = PList [PDict [(''_id'', PStr ''x''), (''a'', PInt 1), (''b'', PInt 2)]],
           error = None,
           metadata = [(''total_count'', PInt 0), (''returned_count'', PInt 1), (''query'', PDict []),
                       (''limit'', PInt 1), (''skip'', PInt 0), (''has_more'', PBool False)]\<rparr>,
      [FindCall [] 0 1, CountCall []])"
    unfolding MongoDBSearchTool_execute_def execute_try_valid [OF valid]
    by (simp add: broken_count_env_def memory_env_def sample_record_def stringify_id_def
          filter_fields_def search_metadata_def sample_str_val_def)
  then show ?thesis by (simp add: broken_count_env_def memory_env_def)
qed

section \<open>The registry\<close>

lemma sublist_not_found: "sublist ''not found'' (''Tool '' @ quoted n @ '' not found'')"
proof -
  have "''Tool '' @ quoted n @ '' not found'' = (''Tool '' @ quoted n @ '' '') @ ''not found'' @ []"
    by simp
  then show ?thesis unfolding sublist_def by blast
qed

lemma sublist_name: "sublist n (''Tool '' @ quoted n @ '' not found'')"
proof -
  have "''Tool '' @ quoted n @ '' not found'' = (''Tool '' @ [CHR 0x27]) @ n @ ([CHR 0x27] @ '' not found'')"
    by (simp add: quoted_def)
  then show ?thesis unfolding sublist_def by blast
qed

text \<open>
  Claim C6. For a name that is not among the registered names, and any inputs,
  \<open>execute_tool\<close> returns a result with \<open>success\<close> false, the message
  \<open>Tool '<name>' not found\<close> (which contains \<open>not found\<close> and the requested name), and
  the metadata \<open>available_tools\<close>: the list of all registered names, in registration
  order. No tool runs: the calls to the store are unchanged.
\<close>

theorem unknown_tool_not_found:
  assumes "n \<notin> set (dict_keys ts)"
  shows "\<exists>r msg. ToolHandler_execute_tool e ts n i c = (Inr r, c) \<and>
           success r = False \<and>
           error r = Some msg \<and> msg = ''Tool '' @ quoted n @ '' not found'' \<and>
           sublist ''not found'' msg \<and> sublist n msg \<and>
           metadata r = [(''available_tools'', PList (map PStr (dict_keys ts)))]"
proof -
  from assms have "get_tool ts n = None"
    by (simp add: get_tool_def dict_keys_def map_of_eq_None_iff)
  then have "ToolHandler_execute_tool e ts n i c = (Inr (tool_not_found ts n), c)"
    by (simp add: ToolHandler_execute_tool_def execute_tool_try_def)
  then show ?thesis
    using sublist_not_found sublist_name by (simp add: tool_not_found_def)
qed

lemma registered_names: "dict_keys (ToolHandler_init e) = [''mongodb_search'']"
  by (simp add: ToolHandler_init_def register_tool_def MongoDBSearchTool_def dict_keys_def)

text \<open>The registry as the server builds it, asked for the tool \<open>nonexistent\<close>.\<close>

theorem unknown_tool_not_found_witness:
  "ToolHandler_execute_tool (memory_env []) (ToolHandler_init (memory_env [])) ''nonexistent'' [] [] =
     (Inr \<lparr>success = False, data = PNone,
           error = Some ''Tool 'nonexistent' not found'',
           metadata = [(''available_tools'', PList [PStr ''mongodb_search''])]\<rparr>, [])"
  using unknown_tool_not_found [of "''nonexistent''" "ToolHandler_init (memory_env [])" "memory_env []" "[]" "[]"]
  by (simp add: ToolHandler_execute_tool_def execute_tool_try_def get_tool_def ToolHandler_init_def
        register_tool_def MongoDBSearchTool_def tool_not_found_def dict_keys_def quoted_def)

section \<open>The \<open>/execute\<close> route\<close>

subsection \<open>Merging two dictionaries\<close>

lemma dom_dict_set: "fst ` set (dict_set d k v) = insert k (fst ` set d)"
  by (induction d k v rule: dict_set.induct) auto

lemma lookup_merge_loop:
  "distinct (map fst b) \<Longrightarrow>
     map_of (foldl (\<lambda>d (k, v). dict_set d k v) a b) x =
       (case map_of b x of Some v \<Rightarrow> Some v | None \<Rightarrow> map_of a x)"
proof (induction b arbitrary: a)
  case Nil
  then show ?case by simp
next
  case (Cons p b)
  obtain k v where p: "p = (k, v)" by (cases p)
  with Cons.prems have fresh: "map_of b k = None" and rest: "distinct (map fst b)"
    by (auto simp: map_of_eq_None_iff)
  have "map_of (foldl (\<lambda>d (k, v). dict_set d k v) (dict_set a k v) b) x =
          (case map_of b x of Some v \<Rightarrow> Some v | None \<Rightarrow> map_of (dict_set a k v) x)"
    by (rule Cons.IH [OF rest])
  then show ?case
    using p fresh by (cases "x = k") (simp_all add: map_of_dict_set split: option.splits)
qed

lemma map_of_dict_merge:
  "distinct (dict_keys b) \<Longrightarrow>
     map_of (dict_merge a b) x = (case map_of b x of Some v \<Rightarrow> Some v | None \<Rightarrow> map_of a x)"
  by (simp add: dict_merge_def dict_keys_def lookup_merge_loop)

lemma keys_dict_merge: "set (dict_keys (dict_merge a b)) = set (dict_keys a) \<union> set (dict_keys b)"
proof -
  have "fst ` set (foldl (\<lambda>d (k, v). dict_set d k v) a b) = fst ` set a \<union> fst ` set b"
  proof (induction b arbitrary: a)
    case Nil
    then show ?case by simp
  next
    case (Cons p b)
    obtain k v where p: "p = (k, v)" by (cases p)
    have "fst ` set (foldl (\<lambda>d (k, v). dict_set d k v) (dict_set a k v) b) =
            insert k (fst ` set a) \<union> fst ` set b"
      by (simp only: Cons.IH dom_dict_set)
    then show ?case using p by simp
  qed
  then show ?thesis by (simp add: dict_merge_def dict_keys_def)
qed

lemma distinct_dict_merge: "distinct (dict_keys a) \<Longrightarrow> distinct (dict_keys (dict_merge a b))"
  unfolding dict_merge_def dict_keys_def
  by (induction b arbitrary: a) (auto simp: distinct_dict_set)

subsection \<open>The response the route builds\<close>

lemma server_execute_tool_built:
  assumes "ToolHandler_execute_tool e ts (tool_name rq) (inputs rq) c = (Inr res, c')"
      and "implicit_optional e \<or> error res \<noteq> None"
  shows "server_execute_tool e ts rq c =
           (Inr \<lparr>success = success res, data = data res, error = error res,
                 metadata = dict_merge (req_metadata rq) (metadata res),
                 mcp_version = MCP_VERSION\<rparr>, c')"
  using assms
  by (auto simp: server_execute_tool_def server_execute_tool_try_def MCPResponse_init_def)

lemma server_execute_tool_rejected:
  assumes "ToolHandler_execute_tool e ts (tool_name rq) (inputs rq) c = (Inr res, c')"
      and "\<not> implicit_optional e" and "error res = None"
  shows "server_execute_tool e ts rq c =
           (Inr \<lparr>success = False, data = PNone,
                 error = Some (''Tool execution failed: '' @ str_exn e (ValidationError [(''error'', NotStr)])),
                 metadata = [(''tool_name'', PStr (tool_name rq))],
                 mcp_version = MCP_VERSION\<rparr>, c')"
  using assms
  by (simp add: server_execute_tool_def server_execute_tool_try_def MCPResponse_init_def)

lemma server_execute_tool_returns:
  "\<exists>resp c'. server_execute_tool e ts rq c = (Inr resp, c')"
proof -
  obtain res c' where h: "ToolHandler_execute_tool e ts (tool_name rq) (inputs rq) c = (Inr res, c')"
    using handler_returns by blast
  show ?thesis
  proof (cases "implicit_optional e \<or> error res \<noteq> None")
    case True
    with h show ?thesis using server_execute_tool_built by blast
  next
    case False
    with h show ?thesis using server_execute_tool_rejected by blast
  qed
qed

text \<open>
  Where the response is built from the result (the result carries an error string, or
  the library reads \<open>error: str = None\<close> as optional), its metadata are
  \<open>{**request.metadata, **result.metadata}\<close>: the keys of both, and for each key the
  result's value when the result's metadata has the key, the request's value otherwise.
\<close>

lemma metadata_overlay:
  assumes "ToolHandler_execute_tool e ts (tool_name rq) (inputs rq) c = (Inr res, c')"
      and "implicit_optional e \<or> error res \<noteq> None"
  shows "\<exists>resp. server_execute_tool e ts rq c = (Inr resp, c') \<and>
           metadata resp = dict_merge (req_metadata rq) (metadata res) \<and>
           set (dict_keys (metadata resp)) =
             set (dict_keys (req_metadata rq)) \<union> set (dict_keys (metadata res)) \<and>
           (distinct (dict_keys (metadata res)) \<longrightarrow>
              (\<forall>k. map_of (metadata resp) k =
                 (case map_of (metadata res) k of
                    Some v \<Rightarrow> Some v
                  | None \<Rightarrow> map_of (req_metadata rq) k)))"
  using server_execute_tool_built [OF assms]
  by (simp add: map_of_dict_merge keys_dict_merge)

lemma metadata_overlay_example:
  "dict_merge [(''x'', PInt 1)] [(''x'', PInt 2), (''y'', PInt 3)] = [(''x'', PInt 2), (''y'', PInt 3)]"
  by (simp add: dict_merge_def)

lemma metadata_overlay_optional:
  "server_execute_tool (memory_env [])
      (register_tool [] (fixed_tool \<lparr>success = True, data = PNone, error = None,
                                     metadata = [(''x'', PInt 2), (''y'', PInt 3)]\<rparr>))
      \<lparr>tool_name = ''fixed'', inputs = [], req_metadata = [(''x'', PInt 1)]\<rparr> [] =
     (Inr \<lparr>success = True, data = PNone, error = None,
           metadata = [(''x'', PInt 2), (''y'', PInt 3)], mcp_version = ''1.0.0''\<rparr>, [])"
  by (simp add: server_execute_tool_def server_execute_tool_try_def ToolHandler_execute_tool_def
        execute_tool_try_def get_tool_def register_tool_def fixed_tool_def dict_merge_def
        MCP_VERSION_def MCPResponse_init_def memory_env_def)

text \<open>
  Claim C7. The claim asks for the overlay of the two metadata for every request and
  every result. Where the library does not read \<open>error: str = None\<close> as optional, the
  example of the specification (request metadata \<open>{"x": 1}\<close>, a tool whose result has
  no error and the metadata \<open>{"x": 2, "y": 3}\<close>) ends in the route's \<open>except\<close> branch:
  the response is a failure whose metadata are \<open>{"tool_name": ...}\<close>, with neither
  \<open>x\<close> nor \<open>y\<close>. The same happens to a successful document search.
\<close>

theorem response_validation_drops_metadata:
  "server_execute_tool (strict_env [sample_record])
      (register_tool [] (fixed_tool \<lparr>success = True, data = PNone, error = None,
                                     metadata = [(''x'', PInt 2), (''y'', PInt 3)]\<rparr>))
      \<lparr>tool_name = ''fixed'', inputs = [], req_metadata = [(''x'', PInt 1)]\<rparr> [] =
     (Inr \<lparr>success = False, data = PNone,
           error = Some ''Tool execution failed: validation error'',
           metadata = [(''tool_name'', PStr ''fixed'')], mcp_version = ''1.0.0''\<rparr>, []) \<and>
   server_execute_tool (strict_env [sample_record]) (ToolHandler_init (strict_env [sample_record]))
      \<lparr>tool_name = ''mongodb_search'', inputs = [], req_metadata = [(''x'', PInt 1)]\<rparr> [] =
     (Inr \<lparr>success = False, data = PNone,
           error = Some ''Tool execution failed: validation error'',
           metadata = [(''tool_name'', PStr ''mongodb_search'')], mcp_version = ''1.0.0''\<rparr>,
      [FindCall [] 0 10, CountCall []])"
proof -
  have valid: "MongoDBSearchInput_validate (strict_env [sample_record]) [] =
     Inr \<lparr>query = [], limit = 10, skip = 0, fields' = None\<rparr>"
    by (simp add: MongoDBSearchInput_validate_def validate_query_def validate_limit_def
          validate_skip_def validate_fields_def)
  have search: "MongoDBSearchTool_execute (strict_env [sample_record]) [] [] =
     (Inr \<lparr>success = True,
           data = PList [PDict [(''_id'', PStr ''x''), (''a'', PInt 1), (''b'', PInt 2)]],
           error = None,
           metadata = [(''total_count'', PInt 1), (''returned_count'', PInt 1), (''query'', PDict []),
                       (''limit'', PInt 10), (''skip'', PInt 0), (''has_more'', PBool False)]\<rparr>,
      [FindCall [] 0 10, CountCall []])"
    unfolding MongoDBSearchTool_execute_def execute_try_valid [OF valid]
    by (simp add: strict_env_def memory_env_def sample_record_def stringify_id_def
          filter_fields_def search_metadata_def sample_str_val_def)
  have handled: "ToolHandler_execute_tool (strict_env [sample_record])
        (ToolHandler_init (strict_env [sample_record])) ''mongodb_search'' [] [] =
      MongoDBSearchTool_execute (strict_env [sample_record]) [] []"
    by (simp add: ToolHandler_execute_tool_def execute_tool_try_def get_tool_def
          ToolHandler_init_def register_tool_def MongoDBSearchTool_def search
          split: prod.splits sum.splits)
  have strict: "\<not> implicit_optional (strict_env [sample_record])"
    and msg: "str_exn (strict_env [sample_record]) (ValidationError [(''error'', NotStr)]) = ''validation error''"
    by (simp_all add: strict_env_def memory_env_def sample_str_exn_def)
  have "server_execute_tool (strict_env [sample_record]) (ToolHandler_init (strict_env [sample_record]))
      \<lparr>tool_name = ''mongodb_search'', inputs = [], req_metadata = [(''x'', PInt 1)]\<rparr> [] =
     (Inr \<lparr>success = False, data = PNone,
           error = Some ''Tool execution failed: validation error'',
           metadata = [(''tool_name'', PStr ''mongodb_search'')], mcp_version = ''1.0.0''\<rparr>,
      [FindCall [] 0 10, CountCall []])"
    using server_execute_tool_rejected [where e = "strict_env [sample_record]"
        and ts = "ToolHandler_init (strict_env [sample_record])"
        and rq = "\<lparr>tool_name = ''mongodb_search'', inputs = [], req_metadata = [(''x'', PInt 1)]\<rparr>"
        and c = "[]", OF _ strict]
      handled search
    by (simp add: msg MCP_VERSION_def)
  moreover have "server_execute_tool (strict_env [sample_record])
      (register_tool [] (fixed_tool \<lparr>success = True, data = PNone, error = None,
                                     metadata = [(''x'', PInt 2), (''y'', PInt 3)]\<rparr>))
      \<lparr>tool_name = ''fixed'', inputs = [], req_metadata = [(''x'', PInt 1)]\<rparr> [] =
     (Inr \<lparr>success = False, data = PNone,
           error = Some ''Tool execution failed: validation error'',
           metadata = [(''tool_name'', PStr ''fixed'')], mcp_version = ''1.0.0''\<rparr>, [])"
    by (simp add: server_execute_tool_def server_execute_tool_try_def ToolHandler_execute_tool_def
        execute_tool_try_def get_tool_def register_tool_def fixed_tool_def dict_merge_def
        MCP_VERSION_def MCPResponse_init_def strict_env_def memory_env_def sample_str_exn_def)
  ultimately show ?thesis by simp
qed

subsection \<open>The status of the response\<close>

text \<open>
  The handler of \<open>/execute\<close> returns a response for every request, registry and store and
  raises nothing; the status is 200 exactly when the framework can serialise that
  response, and 500 otherwise. An unknown tool and a tool that raises are answered with
  200 and \<open>success\<close> false; \<open>GET /tools/{tool_name}\<close> answers an unknown name with 404.
\<close>

lemma post_execute_status:
  "\<exists>resp c'. server_execute_tool e ts rq c = (Inr resp, c') \<and>
     post_execute e ts rq c =
       (if response_serialisable resp then (200, Some resp) else (500, None))"
proof -
  obtain resp c' where "server_execute_tool e ts rq c = (Inr resp, c')"
    using server_execute_tool_returns by blast
  then show ?thesis by (simp add: post_execute_def route_response_def)
qed

lemma unserialisable_body_status_500:
  "server_execute_tool e ts rq c = (Inr resp, c') \<Longrightarrow> \<not> response_serialisable resp \<Longrightarrow>
     post_execute e ts rq c = (500, None)"
  by (simp add: post_execute_def route_response_def)

lemma get_tool_info_status_404:
  "n \<notin> set (dict_keys ts) \<Longrightarrow> fst (get_tools_name ts n) = 404"
proof -
  assume "n \<notin> set (dict_keys ts)"
  then have "map_of ts n = None" by (simp add: dict_keys_def map_of_eq_None_iff)
  then show ?thesis
    by (simp add: get_tools_name_def server_get_tool_info_def get_tool_def route_response_def)
qed

lemma execute_unknown_tool_status:
  "post_execute (memory_env []) (ToolHandler_init (memory_env []))
      \<lparr>tool_name = ''nonexistent'', inputs = [], req_metadata = [(''x'', PInt 1)]\<rparr> [] =
     (200, Some \<lparr>success = False, data = PNone,
                error = Some ''Tool 'nonexistent' not found'',
                metadata = [(''x'', PInt 1), (''available_tools'', PList [PStr ''mongodb_search''])],
                mcp_version = ''1.0.0''\<rparr>)"
  by (simp add: post_execute_def server_execute_tool_def server_execute_tool_try_def
        ToolHandler_execute_tool_def execute_tool_try_def get_tool_def ToolHandler_init_def
        register_tool_def MongoDBSearchTool_def tool_not_found_def dict_keys_def quoted_def
        dict_merge_def MCP_VERSION_def route_response_def MCPResponse_init_def
        response_serialisable_def)

lemma execute_raising_tool_status:
  "post_execute (memory_env []) (register_tool [] raising_tool)
      \<lparr>tool_name = ''raising'', inputs = [], req_metadata = []\<rparr> [] =
     (200, Some \<lparr>success = False, data = PNone,
                error = Some ''Tool execution error: boom'',
                metadata = [(''tool_name'', PStr ''raising'')],
                mcp_version = ''1.0.0''\<rparr>)"
  by (simp add: post_execute_def server_execute_tool_def server_execute_tool_try_def
        ToolHandler_execute_tool_def execute_tool_try_def get_tool_def register_tool_def
        raising_tool_def dict_merge_def MCP_VERSION_def route_response_def memory_env_def
        sample_str_exn_def MCPResponse_init_def response_serialisable_def)

text \<open>
  Claim C8. The claim asks for status 200 on every decoded request. \<open>search_documents\<close>
  turns only the \<open>_id\<close> of a record into a string. On a store holding the record
  \<open>{"_id": ObjectId(...), "owner": ObjectId(...)}\<close>, a search with no inputs succeeds
  in the handler, the response carries the \<open>owner\<close> identifier as it came from the store,
  the framework cannot serialise it, and the request is answered with status 500 and no
  result body.
\<close>

theorem unserialisable_record_status_500:
  "fst (server_execute_tool (memory_env [linked_record]) (ToolHandler_init (memory_env [linked_record]))
      \<lparr>tool_name = ''mongodb_search'', inputs = [], req_metadata = []\<rparr> []) =
     Inr \<lparr>success = True,
          data = PList [PDict [(''_id'', PStr ''65a1''), (''owner'', PObjectId ''65b2'')]],
          error = None,
          metadata = [(''total_count'', PInt 1), (''returned_count'', PInt 1), (''query'', PDict []),
                      (''limit'', PInt 10), (''skip'', PInt 0), (''has_more'', PBool False)],
          mcp_version = ''1.0.0''\<rparr> \<and>
   post_execute (memory_env [linked_record]) (ToolHandler_init (memory_env [linked_record]))
      \<lparr>tool_name = ''mongodb_search'', inputs = [], req_metadata = []\<rparr> [] = (500, None)"
proof -
  have search: "MongoDBSearchTool_execute (memory_env [linked_record]) [] [] =
     (Inr \<lparr>success = True,
           data = PList [PDict [(''_id'', PStr ''65a1''), (''owner'', PObjectId ''65b2'')]],
           error = None,
           metadata = [(''total_count'', PInt 1), (''returned_count'', PInt 1), (''query'', PDict []),
                       (''limit'', PInt 10), (''skip'', PInt 0), (''has_more'', PBool False)]\<rparr>,
      [FindCall [] 0 10, CountCall []])"
    unfolding MongoDBSearchTool_execute_def execute_try_valid [OF no_inputs_valid]
    by (simp add: memory_env_def linked_record_def stringify_id_def
          filter_fields_def search_metadata_def sample_str_val_def)
  have handled: "ToolHandler_execute_tool (memory_env [linked_record])
        (ToolHandler_init (memory_env [linked_record])) ''mongodb_search'' [] [] =
      MongoDBSearchTool_execute (memory_env [linked_record]) [] []"
    by (simp add: ToolHandler_execute_tool_def execute_tool_try_def get_tool_def
          ToolHandler_init_def register_tool_def MongoDBSearchTool_def search
          split: prod.splits sum.splits)
  have optional: "implicit_optional (memory_env [linked_record])"
    by (simp add: memory_env_def)
  have built: "server_execute_tool (memory_env [linked_record]) (ToolHandler_init (memory_env [linked_record]))
      \<lparr>tool_name = ''mongodb_search'', inputs = [], req_metadata = []\<rparr> [] =
     (Inr \<lparr>success = True,
          data = PList [PDict [(''_id'', PStr ''65a1''), (''owner'', PObjectId ''65b2'')]],
          error = None,
          metadata = [(''total_count'', PInt 1), (''returned_count'', PInt 1), (''query'', PDict []),
                      (''limit'', PInt 10), (''skip'', PInt 0), (''has_more'', PBool False)],
          mcp_version = ''1.0.0''\<rparr>, [FindCall [] 0 10, CountCall []])"
    using server_execute_tool_built [where e = "memory_env [linked_record]"
        and ts = "ToolHandler_init (memory_env [linked_record])"
        and rq = "\<lparr>tool_name = ''mongodb_search'', inputs = [], req_metadata = []\<rparr>"
        and c = "[]"]
      handled search optional
    by (simp add: MCP_VERSION_def dict_merge_def)
  then show ?thesis
    by (simp add: post_execute_def route_response_def response_serialisable_def)
qed

section \<open>The client\<close>

lemma upper_POST: "py_upper py ''POST'' = ''POST''"
  by (simp add: py_upper_def is_ascii_def ascii_upper_def)

lemma make_request_post:
  "make_request ce url ''POST'' ep payload sent =
     (session_post ce (url @ ep) payload, sent @ [HttpPost (url @ ep) payload])"
  by (simp add: make_request_def upper_POST Let_def)

lemma search_documents_sent:
  "snd (MCPClient_search_documents ce url q l s fs sent) =
     sent @ [HttpPost (url @ ''/execute'') (search_request_data q l s fs)]"
  by (simp add: MCPClient_search_documents_def search_documents_try_def make_request_post
           split: sum.splits pyval.splits exn.splits prod.splits)

lemma add_prompt_metadata_dict:
  "map_of res ''metadata'' = Some (PDict m) \<Longrightarrow> m \<noteq> [] \<Longrightarrow>
     add_prompt_metadata p res =
       Inr (dict_set res ''metadata''
              (PDict (dict_set (dict_set m ''original_prompt'' (PStr p)) ''query_type'' (PStr ''text_search''))))"
  by (simp add: add_prompt_metadata_def)

lemma process_prompt_unfold:
  "MCPClient_process_prompt ce url p sent =
     (case add_prompt_metadata p
             (fst (MCPClient_search_documents ce url (Some (text_search_query (py_strip ce (py_lower ce p)))) 20 0 None sent)) of
        Inr result' \<Rightarrow> (result', sent @ [HttpPost (url @ ''/execute'')
             (search_request_data (Some (text_search_query (py_strip ce (py_lower ce p)))) 20 0 None)])
      | Inl ex \<Rightarrow>
          ([(''success'', PBool False),
            (''error'', PStr (''Prompt processing failed: '' @ str_exn ce ex)),
            (''data'', PList []),
            (''metadata'', PDict [(''original_prompt'', PStr p)])],
           sent @ [HttpPost (url @ ''/execute'')
             (search_request_data (Some (text_search_query (py_strip ce (py_lower ce p)))) 20 0 None)]))"
proof -
  obtain res sent' where r: "MCPClient_search_documents ce url
      (Some (text_search_query (py_strip ce (py_lower ce p)))) 20 0 None sent = (res, sent')"
    by (cases "MCPClient_search_documents ce url
      (Some (text_search_query (py_strip ce (py_lower ce p)))) 20 0 None sent")
  with search_documents_sent [of ce url "Some (text_search_query (py_strip ce (py_lower ce p)))" 20 0 None sent]
  have "sent' = sent @ [HttpPost (url @ ''/execute'')
             (search_request_data (Some (text_search_query (py_strip ce (py_lower ce p)))) 20 0 None)]"
    by simp
  with r show ?thesis
    by (simp add: MCPClient_process_prompt_def Let_def split: sum.splits)
qed

text \<open>
  Claim C9, as amended. For every prompt, \<open>process_prompt\<close> sends one request: a POST to
  \<open>/execute\<close> for the tool \<open>mongodb_search\<close> whose \<open>query\<close> is the \<open>$or\<close> of a
  case-insensitive \<open>$regex\<close> on \<open>content\<close>, \<open>title\<close> and \<open>description\<close>, the pattern being
  \<open>prompt.lower().strip()\<close> (on any string: the interpreter's functions, which on an
  ASCII prompt map the letters A-Z and remove ASCII whitespace from both ends), with
  \<open>limit\<close> 20, \<open>skip\<close> 0 and no \<open>fields\<close>.
  When the search result's \<open>metadata\<close> is a non-empty dict, the returned result is the
  search result with \<open>original_prompt\<close> (the prompt as given) and
  \<open>query_type = "text_search"\<close> set in that metadata, its other keys unchanged. When the
  search result has no \<open>metadata\<close> or an empty one, it is returned as it is.
\<close>

theorem process_prompt_text_search:
  "snd (MCPClient_process_prompt ce url p sent) =
     sent @ [HttpPost (url @ ''/execute'')
       (PDict [(''tool_name'', PStr ''mongodb_search''),
               (''inputs'',
                  PDict [(''query'',
                          PDict [(''$or'',
                            PList [PDict [(''content'', PDict [(''$regex'', PStr (py_strip ce (py_lower ce p))), (''$options'', PStr ''i'')])],
                                   PDict [(''title'', PDict [(''$regex'', PStr (py_strip ce (py_lower ce p))), (''$options'', PStr ''i'')])],
                                   PDict [(''description'', PDict [(''$regex'', PStr (py_strip ce (py_lower ce p))), (''$options'', PStr ''i'')])]])]),
                         (''limit'', PInt 20),
                         (''skip'', PInt 0)]),
               (''metadata'', PDict [(''client_request'', PBool True), (''timestamp'', PNone)])])] \<and>
   (\<forall>res m. res = fst (MCPClient_search_documents ce url
                          (Some (text_search_query (py_strip ce (py_lower ce p)))) 20 0 None sent) \<and>
            map_of res ''metadata'' = Some (PDict m) \<and> m \<noteq> [] \<longrightarrow>
      (\<exists>m'. fst (MCPClient_process_prompt ce url p sent) = dict_set res ''metadata'' (PDict m') \<and>
            map_of m' ''original_prompt'' = Some (PStr p) \<and>
            map_of m' ''query_type'' = Some (PStr ''text_search'') \<and>
            (\<forall>k. k \<noteq> ''original_prompt'' \<and> k \<noteq> ''query_type'' \<longrightarrow> map_of m' k = map_of m k))) \<and>
   (\<forall>res. res = fst (MCPClient_search_documents ce url
                          (Some (text_search_query (py_strip ce (py_lower ce p)))) 20 0 None sent) \<and>
          (map_of res ''metadata'' = None \<or> map_of res ''metadata'' = Some (PDict [])) \<longrightarrow>
      fst (MCPClient_process_prompt ce url p sent) = res)"
proof (intro conjI allI impI)
  show "snd (MCPClient_process_prompt ce url p sent) =
     sent @ [HttpPost (url @ ''/execute'')
       (PDict [(''tool_name'', PStr ''mongodb_search''),
               (''inputs'',
                  PDict [(''query'',
                          PDict [(''$or'',
                            PList [PDict [(''content'', PDict [(''$regex'', PStr (py_strip ce (py_lower ce p))), (''$options'', PStr ''i'')])],
                                   PDict [(''title'', PDict [(''$regex'', PStr (py_strip ce (py_lower ce p))), (''$options'', PStr ''i'')])],
                                   PDict [(''description'', PDict [(''$regex'', PStr (py_strip ce (py_lower ce p))), (''$options'', PStr ''i'')])]])]),
                         (''limit'', PInt 20),
                         (''skip'', PInt 0)]),
               (''metadata'', PDict [(''client_request'', PBool True), (''timestamp'', PNone)])])]"
    unfolding process_prompt_unfold
    by (simp add: search_request_data_def text_search_query_def split: sum.splits)
next
  fix res m
  assume h: "res = fst (MCPClient_search_documents ce url
                          (Some (text_search_query (py_strip ce (py_lower ce p)))) 20 0 None sent) \<and>
            map_of res ''metadata'' = Some (PDict m) \<and> m \<noteq> []"
  let ?m' = "dict_set (dict_set m ''original_prompt'' (PStr p)) ''query_type'' (PStr ''text_search'')"
  from h have "add_prompt_metadata p res = Inr (dict_set res ''metadata'' (PDict ?m'))"
    using add_prompt_metadata_dict by blast
  with h have "fst (MCPClient_process_prompt ce url p sent) = dict_set res ''metadata'' (PDict ?m')"
    unfolding process_prompt_unfold by simp
  moreover have "map_of ?m' ''original_prompt'' = Some (PStr p)"
    and "map_of ?m' ''query_type'' = Some (PStr ''text_search'')"
    and "\<forall>k. k \<noteq> ''original_prompt'' \<and> k \<noteq> ''query_type'' \<longrightarrow> map_of ?m' k = map_of m k"
    by (simp_all add: map_of_dict_set)
  ultimately show "\<exists>m'. fst (MCPClient_process_prompt ce url p sent) = dict_set res ''metadata'' (PDict m') \<and>
            map_of m' ''original_prompt'' = Some (PStr p) \<and>
            map_of m' ''query_type'' = Some (PStr ''text_search'') \<and>
            (\<forall>k. k \<noteq> ''original_prompt'' \<and> k \<noteq> ''query_type'' \<longrightarrow> map_of m' k = map_of m k)"
    by blast
next
  fix res
  assume h: "res = fst (MCPClient_search_documents ce url
                          (Some (text_search_query (py_strip ce (py_lower ce p)))) 20 0 None sent) \<and>
          (map_of res ''metadata'' = None \<or> map_of res ''metadata'' = Some (PDict []))"
  then have "add_prompt_metadata p res = Inr res"
    by (auto simp: add_prompt_metadata_def)
  with h show "fst (MCPClient_process_prompt ce url p sent) = res"
    unfolding process_prompt_unfold by simp
qed

text \<open>
  Claim C9 as stated fails when the server cannot be reached: \<open>search_documents\<close> then
  returns its own failure result, whose \<open>metadata\<close> is \<open>{}\<close>, the guard
  \<open>if result.get("metadata"):\<close> is false, and the result comes back with neither
  \<open>original_prompt\<close> nor \<open>query_type\<close>.
\<close>

theorem process_prompt_offline_counterexample:
  "fst (MCPClient_process_prompt offline_client ''http://localhost:8000'' ''Python'' []) =
     [(''success'', PBool False), (''error'', PStr ''connection refused''),
      (''data'', PList []), (''metadata'', PDict [])]"
proof -
  have "fst (MCPClient_search_documents offline_client ''http://localhost:8000''
               (Some (text_search_query (py_strip offline_client (py_lower offline_client ''Python'')))) 20 0 None []) =
     [(''success'', PBool False), (''error'', PStr ''connection refused''),
      (''data'', PList []), (''metadata'', PDict [])]"
    by (simp add: MCPClient_search_documents_def search_documents_try_def make_request_post
          offline_client_def sample_str_exn_def)
  then show ?thesis
    unfolding process_prompt_unfold by (simp add: add_prompt_metadata_def)
qed

text \<open>
  A server that answers: the prompt \<open>"  Python "\<close> is searched as \<open>python\<close> and comes
  back, untouched, as \<open>original_prompt\<close>.
\<close>

lemma lower_strip_example: "py_strip py (py_lower py ''  Python '') = ''python''"
  by (simp add: py_strip_def py_lower_def is_ascii_def ascii_lower_def ascii_strip_def
        ascii_isspace_def)

text \<open>
  A prompt with a byte outside ASCII (here the UTF-8 bytes of a capital E with acute
  accent) is lower-cased and stripped by the interpreter's functions.
\<close>

lemma lower_unicode_example:
  "py_lower py [CHR 0xC3, CHR 0x89, CHR ''C'', CHR ''O'', CHR ''L'', CHR ''E''] =
     unicode_lower py [CHR 0xC3, CHR 0x89, CHR ''C'', CHR ''O'', CHR ''L'', CHR ''E'']"
  by (simp add: py_lower_def is_ascii_def)

lemma lower_strip_unicode:
  "\<not> is_ascii p \<Longrightarrow> py_lower py p = unicode_lower py p"
  "\<not> is_ascii s \<Longrightarrow> py_strip py s = unicode_strip py s"
  by (simp_all add: py_lower_def py_strip_def)

theorem process_prompt_text_search_witness:
  "MCPClient_process_prompt
      (replying_client (PDict [(''success'', PBool True), (''data'', PList []), (''error'', PNone),
                               (''metadata'', PDict [(''total_count'', PInt 0)])]))
      ''http://localhost:8000'' ''  Python '' [] =
     ([(''success'', PBool True), (''data'', PList []), (''error'', PNone),
       (''metadata'', PDict [(''total_count'', PInt 0),
                             (''original_prompt'', PStr ''  Python ''),
                             (''query_type'', PStr ''text_search'')])],
      [HttpPost ''http://localhost:8000/execute''
         (PDict [(''tool_name'', PStr ''mongodb_search''),
                 (''inputs'',
                    PDict [(''query'',
                            PDict [(''$or'',
                              PList [PDict [(''content'', PDict [(''$regex'', PStr ''python''), (''$options'', PStr ''i'')])],
                                     PDict [(''title'', PDict [(''$regex'', PStr ''python''), (''$options'', PStr ''i'')])],
                                     PDict [(''description'', PDict [(''$regex'', PStr ''python''), (''$options'', PStr ''i'')])]])]),
                           (''limit'', PInt 20),
                           (''skip'', PInt 0)]),
                 (''metadata'', PDict [(''client_request'', PBool True), (''timestamp'', PNone)])])])"
proof -
  let ?ce = "replying_client (PDict [(''success'', PBool True), (''data'', PList []), (''error'', PNone),
                               (''metadata'', PDict [(''total_count'', PInt 0)])])"
  have found: "fst (MCPClient_search_documents ?ce ''http://localhost:8000''
               (Some (text_search_query (py_strip ?ce (py_lower ?ce ''  Python '')))) 20 0 None []) =
     [(''success'', PBool True), (''data'', PList []), (''error'', PNone),
      (''metadata'', PDict [(''total_count'', PInt 0)])]"
    by (simp add: MCPClient_search_documents_def search_documents_try_def make_request_post
          replying_client_def dict_get_def py_len_def)
  have result: "fst (MCPClient_process_prompt ?ce ''http://localhost:8000'' ''  Python '' []) =
     [(''success'', PBool True), (''data'', PList []), (''error'', PNone),
       (''metadata'', PDict [(''total_count'', PInt 0),
                             (''original_prompt'', PStr ''  Python ''),
                             (''query_type'', PStr ''text_search'')])]"
    unfolding process_prompt_unfold found by (simp add: add_prompt_metadata_def)
  from process_prompt_text_search [of ?ce "''http://localhost:8000''" "''  Python ''" "[]"]
  have "snd (MCPClient_process_prompt ?ce ''http://localhost:8000'' ''  Python '' []) =
      [HttpPost ''http://localhost:8000/execute''
         (PDict [(''tool_name'', PStr ''mongodb_search''),
                 (''inputs'',
                    PDict [(''query'',
                            PDict [(''$or'',
                              PList [PDict [(''content'', PDict [(''$regex'', PStr ''python''), (''$options'', PStr ''i'')])],
                                     PDict [(''title'', PDict [(''$regex'', PStr ''python''), (''$options'', PStr ''i'')])],
                                     PDict [(''description'', PDict [(''$regex'', PStr ''python''), (''$options'', PStr ''i'')])]])]),
                           (''limit'', PInt 20),
                           (''skip'', PInt 0)]),
                 (''metadata'', PDict [(''client_request'', PBool True), (''timestamp'', PNone)])])]"
    unfolding lower_strip_example by simp
  with result show ?thesis by (simp add: prod_eq_iff)
qed

end
